theory Spec2Isabelle
  imports Main "HOL-Library.Word"
begin

section \<open>JavaScript strings and buffers\<close>

text \<open>
  A JavaScript string is a sequence of UTF-16 code units; a Node \<open>Buffer\<close> is a sequence
  of bytes. String literals of the source that are plain ASCII are written \<open>js ''...''\<close>.
\<close>

type_synonym jsstring = "16 word list"
type_synonym bytes = "8 word list"

abbreviation js :: "string \<Rightarrow> jsstring" where
  "js s \<equiv> map of_char s"

abbreviation ch :: "char \<Rightarrow> 16 word" where
  "ch c \<equiv> of_char c"

text \<open>\<open>str.split("\n")\<close>: the pieces between newlines; never empty, \<open>"".split("\n")\<close> is \<open>[""]\<close>.\<close>

fun split_nl :: "jsstring \<Rightarrow> jsstring list" where
  "split_nl [] = [[]]"
| "split_nl (c # cs) =
     (if c = 0x0A then [] # split_nl cs
      else (c # hd (split_nl cs)) # tl (split_nl cs))"

text \<open>\<open>String.prototype.trim\<close> strips the code units of WhiteSpace and LineTerminator.\<close>

definition is_js_space :: "16 word \<Rightarrow> bool" where
  "is_js_space c \<longleftrightarrow>
     c = 0x09 \<or> c = 0x0A \<or> c = 0x0B \<or> c = 0x0C \<or> c = 0x0D \<or> c = 0x20 \<or> c = 0xA0 \<or>
     c = 0x1680 \<or> (0x2000 \<le> c \<and> c \<le> 0x200A) \<or> c = 0x2028 \<or> c = 0x2029 \<or>
     c = 0x202F \<or> c = 0x205F \<or> c = 0x3000 \<or> c = 0xFEFF"

definition trim :: "jsstring \<Rightarrow> jsstring" where
  "trim s = rev (dropWhile is_js_space (rev (dropWhile is_js_space s)))"

subsection \<open>\<open>Buffer.prototype.toString()\<close>: UTF-8 decoding with replacement\<close>

text \<open>
  The stdout handlers call \<open>data.toString()\<close> on every chunk. The default encoding is
  UTF-8; a byte sequence that is not valid UTF-8, which includes a multi-byte character cut
  off by the end of the buffer, decodes to U+FFFD. The decoder is the usual state machine:
  \<open>Pending n cp lo hi\<close> waits for \<open>n\<close> more continuation bytes, the next one in
  \<open>lo..hi\<close>.
\<close>

datatype utf8_state = Start | Pending nat nat "8 word" "8 word"

definition utf16_units :: "nat \<Rightarrow> jsstring" where
  "utf16_units cp =
     (if cp < 0x10000 then [of_nat cp]
      else [of_nat (0xD800 + (cp - 0x10000) div 0x400),
            of_nat (0xDC00 + (cp - 0x10000) mod 0x400)])"

definition utf8_lead :: "8 word \<Rightarrow> jsstring \<times> utf8_state" where
  "utf8_lead b =
     (if b < 0x80 then ([ucast b], Start)
      else if 0xC2 \<le> b \<and> b \<le> 0xDF then ([], Pending 1 (unat b mod 32) 0x80 0xBF)
      else if 0xE0 \<le> b \<and> b \<le> 0xEF then
        ([], Pending 2 (unat b mod 16) (if b = 0xE0 then 0xA0 else 0x80)
                                       (if b = 0xED then 0x9F else 0xBF))
      else if 0xF0 \<le> b \<and> b \<le> 0xF4 then
        ([], Pending 3 (unat b mod 8) (if b = 0xF0 then 0x90 else 0x80)
                                      (if b = 0xF4 then 0x8F else 0xBF))
      else ([0xFFFD], Start))"

fun utf8_step :: "utf8_state \<Rightarrow> 8 word \<Rightarrow> jsstring \<times> utf8_state" where
  "utf8_step Start b = utf8_lead b"
| "utf8_step (Pending n cp lo hi) b =
     (if lo \<le> b \<and> b \<le> hi then
        (if n = 1 then (utf16_units (cp * 64 + unat b mod 64), Start)
         else ([], Pending (n - 1) (cp * 64 + unat b mod 64) 0x80 0xBF))
      else (0xFFFD # fst (utf8_lead b), snd (utf8_lead b)))"

fun utf8_run :: "utf8_state \<Rightarrow> bytes \<Rightarrow> jsstring \<times> utf8_state" where
  "utf8_run st [] = ([], st)"
| "utf8_run st (b # bs) =
     (fst (utf8_step st b) @ fst (utf8_run (snd (utf8_step st b)) bs),
      snd (utf8_run (snd (utf8_step st b)) bs))"

fun utf8_flush :: "utf8_state \<Rightarrow> jsstring" where
  "utf8_flush Start = []"
| "utf8_flush (Pending n cp lo hi) = [0xFFFD]"

definition toString :: "bytes \<Rightarrow> jsstring" where
  "toString data = fst (utf8_run Start data) @ utf8_flush (snd (utf8_run Start data))"

section \<open>Line framing of provider stdout\<close>

text \<open>
  The body of both \<open>stdout.on("data", ...)\<close> handlers up to the loop over the lines:
  \<^verbatim>\<open>
  const rawData = data.toString();
  buffer += rawData;
  const lines = buffer.split("\n");
  buffer = lines.pop() || "";
  \<close>
  \<open>split\<close> never returns an empty array, so \<open>pop\<close> returns its last element, and
  \<open>|| ""\<close> only maps the empty string to itself.
\<close>

definition frame :: "jsstring \<Rightarrow> jsstring \<Rightarrow> jsstring list \<times> jsstring" where
  "frame buffer rawData =
     (let lines = split_nl (buffer @ rawData) in (butlast lines, last lines))"

definition on_data :: "jsstring \<Rightarrow> bytes \<Rightarrow> jsstring list \<times> jsstring" where
  "on_data buffer data = frame buffer (toString data)"

text \<open>
  A run of the handler over the chunks of one process, from the empty buffer: the lines
  handed to the parse loop, in order, and the buffer left when the stream closes.
\<close>

fun feed :: "jsstring \<Rightarrow> bytes list \<Rightarrow> jsstring list \<times> jsstring" where
  "feed buffer [] = ([], buffer)"
| "feed buffer (d # ds) =
     (fst (on_data buffer d) @ fst (feed (snd (on_data buffer d)) ds),
      snd (feed (snd (on_data buffer d)) ds))"

definition stdout_lines :: "bytes list \<Rightarrow> jsstring list" where
  "stdout_lines chunks = fst (feed [] chunks)"

subsection \<open>Framing is independent of how the decoded text is cut\<close>

lemma split_nl_nonempty: "split_nl s \<noteq> []"
  by (cases s) auto

lemma split_nl_append:
  "split_nl (xs @ ys) = butlast (split_nl xs) @ split_nl (last (split_nl xs) @ ys)"
proof (induction xs)
  case Nil
  show ?case by simp
next
  case (Cons c xs)
  obtain l ls where S: "split_nl xs = l # ls"
    using split_nl_nonempty [of xs] by (cases "split_nl xs") auto
  show ?case
  proof (cases "c = 0x0A")
    case True
    then show ?thesis using Cons S by simp
  next
    case False
    show ?thesis
    proof (cases ls)
      case Nil
      then show ?thesis using Cons S False by simp
    next
      case (Cons l' ls')
      then show ?thesis using Cons.IH S False by simp
    qed
  qed
qed

lemma split_nl_no_newline: "0x0A \<notin> set s \<Longrightarrow> split_nl s = [s]"
  by (induction s) auto

lemma last_split_nl_no_newline: "0x0A \<notin> set (last (split_nl s))"
proof (induction s)
  case Nil
  show ?case by simp
next
  case (Cons c cs)
  obtain l ls where S: "split_nl cs = l # ls"
    using split_nl_nonempty [of cs] by (cases "split_nl cs") auto
  show ?case using Cons S by (cases ls) auto
qed

lemma feed_decoded:
  assumes "0x0A \<notin> set buffer"
  shows "feed buffer chunks =
     (butlast (split_nl (buffer @ concat (map toString chunks))),
      last (split_nl (buffer @ concat (map toString chunks))))"
  using assms
proof (induction chunks arbitrary: buffer)
  case Nil
  then show ?case by (simp add: split_nl_no_newline)
next
  case (Cons d ds)
  let ?S = "split_nl (buffer @ toString d)"
  let ?rest = "concat (map toString ds)"
  have od: "on_data buffer d = (butlast ?S, last ?S)"
    by (simp add: on_data_def frame_def Let_def)
  have IH: "feed (last ?S) ds =
      (butlast (split_nl (last ?S @ ?rest)), last (split_nl (last ?S @ ?rest)))"
    by (rule Cons.IH) (rule last_split_nl_no_newline)
  have whole: "split_nl (buffer @ concat (map toString (d # ds))) =
      butlast ?S @ split_nl (last ?S @ ?rest)"
    using split_nl_append [of "buffer @ toString d" ?rest] by simp
  show ?case
    by (simp only: feed.simps od fst_conv snd_conv IH whole)
       (simp add: butlast_append split_nl_nonempty)
qed

lemma stdout_lines_decoded:
  "stdout_lines chunks = butlast (split_nl (concat (map toString chunks)))"
  using feed_decoded [of "[]" chunks] by (simp add: stdout_lines_def)


subsection \<open>Decoding chunk by chunk\<close>

lemma utf8_run_append:
  "utf8_run st (xs @ ys) =
     (fst (utf8_run st xs) @ fst (utf8_run (snd (utf8_run st xs)) ys),
      snd (utf8_run (snd (utf8_run st xs)) ys))"
  by (induction xs arbitrary: st) simp_all

lemma toString_append_complete:
  "snd (utf8_run Start xs) = Start \<Longrightarrow> toString (xs @ ys) = toString xs @ toString ys"
  by (simp add: toString_def utf8_run_append)

lemma utf8_run_concat_complete:
  "\<forall>d \<in> set chunks. snd (utf8_run Start d) = Start \<Longrightarrow>
     snd (utf8_run Start (concat chunks)) = Start"
  by (induction chunks) (simp_all add: utf8_run_append)

lemma toString_concat_complete:
  "\<forall>d \<in> set chunks. snd (utf8_run Start d) = Start \<Longrightarrow>
     toString (concat chunks) = concat (map toString chunks)"
proof (induction chunks)
  case Nil
  show ?case by (simp add: toString_def)
next
  case (Cons d ds)
  then have "toString (d @ concat ds) = toString d @ toString (concat ds)"
    by (simp add: toString_append_complete)
  then show ?case using Cons by simp
qed

text \<open>
  When no chunk ends inside a multi-byte character, the lines are those of the decoded
  whole output, whatever the chunking.
\<close>

lemma stdout_lines_complete_chunks:
  "\<forall>d \<in> set chunks. snd (utf8_run Start d) = Start \<Longrightarrow>
     stdout_lines chunks = butlast (split_nl (toString (concat chunks)))"
  by (simp add: stdout_lines_decoded toString_concat_complete)

lemma utf8_run_ascii:
  "\<forall>b \<in> set d. b < 0x80 \<Longrightarrow> utf8_run Start d = (map ucast d, Start)"
  by (induction d) (simp_all add: utf8_lead_def)

lemma stdout_lines_ascii:
  assumes "\<forall>d \<in> set chunks. \<forall>b \<in> set d. b < 0x80"
  shows "stdout_lines chunks = butlast (split_nl (map ucast (concat chunks)))"
proof -
  have c: "\<forall>d \<in> set chunks. snd (utf8_run Start d) = Start"
    using assms by (simp add: utf8_run_ascii)
  have "\<forall>b \<in> set (concat chunks). b < 0x80"
    using assms by auto
  then have "toString (concat chunks) = map ucast (concat chunks)"
    by (simp add: toString_def utf8_run_ascii)
  then show ?thesis
    using stdout_lines_complete_chunks [OF c] by simp
qed

text \<open>
  C2. The claim: for every stdout byte sequence and every way of splitting it into chunks,
  the framing hands the same sequence of complete lines to the parse loop. The handlers
  decode each chunk on its own, so a chunk boundary inside a multi-byte character changes
  the line: the three bytes \<open>C3 A9 0A\<close> (the letter e with acute accent, then a newline) give
  the line U+00E9 when they arrive in one chunk, and the line U+FFFD U+FFFD when the first
  chunk ends after \<open>C3\<close>.
\<close>

theorem stdout_lines_split_character:
  "concat [[0xC3], [0xA9, 0x0A]] = concat [[0xC3, 0xA9, 0x0A :: 8 word]] \<and>
   stdout_lines [[0xC3, 0xA9, 0x0A]] = [[0xE9]] \<and>
   stdout_lines [[0xC3], [0xA9, 0x0A]] = [[0xFFFD, 0xFFFD]]"
  by (simp add: stdout_lines_def on_data_def frame_def toString_def utf8_lead_def
      utf16_units_def)


section \<open>JSON\<close>

text \<open>
  The values \<open>JSON.parse\<close> returns and \<open>JSON.stringify\<close> prints. An object is the list
  of its members in order; \<open>JSON.parse\<close> yields the members in the order of the text, and
  a property read takes the last member with the key, as the later member overwrites the
  earlier one. A number is carried as the text of its literal: the conversion to and from
  IEEE doubles is not modelled, and no value the manager prints contains a number.
\<close>

datatype json =
    JNull
  | JBool bool
  | JNum jsstring
  | JStr jsstring
  | JArr "json list"
  | JObj "(jsstring \<times> json) list"

subsection \<open>\<open>JSON.stringify\<close>\<close>

definition hex_digit :: "nat \<Rightarrow> 16 word" where
  "hex_digit d = (if d < 10 then of_nat (48 + d) else of_nat (87 + d))"

definition hex4 :: "16 word \<Rightarrow> jsstring" where
  "hex4 c = [hex_digit (unat c div 4096), hex_digit (unat c div 256 mod 16),
             hex_digit (unat c div 16 mod 16), hex_digit (unat c mod 16)]"

definition is_high_surrogate :: "16 word \<Rightarrow> bool" where
  "is_high_surrogate c \<longleftrightarrow> 0xD800 \<le> c \<and> c \<le> 0xDBFF"

definition is_low_surrogate :: "16 word \<Rightarrow> bool" where
  "is_low_surrogate c \<longleftrightarrow> 0xDC00 \<le> c \<and> c \<le> 0xDFFF"

definition quote_unit :: "16 word \<Rightarrow> jsstring" where
  "quote_unit c =
     (if c = 0x08 then [0x5C, ch CHR ''b'']
      else if c = 0x09 then [0x5C, ch CHR ''t'']
      else if c = 0x0A then [0x5C, ch CHR ''n'']
      else if c = 0x0C then [0x5C, ch CHR ''f'']
      else if c = 0x0D then [0x5C, ch CHR ''r'']
      else if c = 0x22 then [0x5C, 0x22]
      else if c = 0x5C then [0x5C, 0x5C]
      else if c < 0x20 \<or> is_high_surrogate c \<or> is_low_surrogate c then 0x5C # ch CHR ''u'' # hex4 c
      else [c])"

fun quote_units :: "jsstring \<Rightarrow> jsstring" where
  "quote_units [] = []"
| "quote_units [c] = quote_unit c"
| "quote_units (c # d # cs) =
     (if is_high_surrogate c \<and> is_low_surrogate d then c # d # quote_units cs
      else quote_unit c @ quote_units (d # cs))"

definition QuoteJSONString :: "jsstring \<Rightarrow> jsstring" where
  "QuoteJSONString s = 0x22 # quote_units s @ [0x22]"

fun JSON_stringify :: "json \<Rightarrow> jsstring"
  and stringify_elements :: "json list \<Rightarrow> jsstring"
  and stringify_members :: "(jsstring \<times> json) list \<Rightarrow> jsstring" where
  "JSON_stringify JNull = js ''null''"
| "JSON_stringify (JBool b) = (if b then js ''true'' else js ''false'')"
| "JSON_stringify (JNum lexeme) = lexeme"
| "JSON_stringify (JStr s) = QuoteJSONString s"
| "JSON_stringify (JArr vs) = ch CHR ''['' # stringify_elements vs @ [ch CHR '']'']"
| "JSON_stringify (JObj kvs) = ch CHR ''{'' # stringify_members kvs @ [ch CHR ''}'']"
| "stringify_elements [] = []"
| "stringify_elements [v] = JSON_stringify v"
| "stringify_elements (v # w # vs) = JSON_stringify v @ ch CHR '','' # stringify_elements (w # vs)"
| "stringify_members [] = []"
| "stringify_members [(k, v)] = QuoteJSONString k @ ch CHR '':'' # JSON_stringify v"
| "stringify_members ((k, v) # m # kvs) =
     QuoteJSONString k @ ch CHR '':'' # JSON_stringify v @ ch CHR '','' # stringify_members (m # kvs)"

subsection \<open>\<open>JSON.parse\<close>\<close>

definition is_json_ws :: "16 word \<Rightarrow> bool" where
  "is_json_ws c \<longleftrightarrow> c = 0x09 \<or> c = 0x0A \<or> c = 0x0D \<or> c = 0x20"

definition skip_ws :: "jsstring \<Rightarrow> jsstring" where
  "skip_ws s = dropWhile is_json_ws s"

definition hex_value :: "16 word \<Rightarrow> nat option" where
  "hex_value c =
     (if 0x30 \<le> c \<and> c \<le> 0x39 then Some (unat c - 48)
      else if 0x61 \<le> c \<and> c \<le> 0x66 then Some (unat c - 87)
      else if 0x41 \<le> c \<and> c \<le> 0x46 then Some (unat c - 55)
      else None)"

definition hex4_value :: "16 word \<Rightarrow> 16 word \<Rightarrow> 16 word \<Rightarrow> 16 word \<Rightarrow> 16 word option" where
  "hex4_value a b c d =
     (case (hex_value a, hex_value b, hex_value c, hex_value d) of
        (Some x, Some y, Some z, Some w) \<Rightarrow> Some (of_nat (x * 4096 + y * 256 + z * 16 + w))
      | _ \<Rightarrow> None)"

definition unescape :: "16 word \<Rightarrow> 16 word option" where
  "unescape e =
     (if e = 0x22 then Some 0x22
      else if e = 0x5C then Some 0x5C
      else if e = 0x2F then Some 0x2F
      else if e = ch CHR ''b'' then Some 0x08
      else if e = ch CHR ''f'' then Some 0x0C
      else if e = ch CHR ''n'' then Some 0x0A
      else if e = ch CHR ''r'' then Some 0x0D
      else if e = ch CHR ''t'' then Some 0x09
      else None)"

fun parse_chars :: "jsstring \<Rightarrow> (jsstring \<times> jsstring) option" where
  "parse_chars [] = None"
| "parse_chars (c # cs) =
     (if c = 0x22 then Some ([], cs)
      else if c = 0x5C then
        (case cs of
           [] \<Rightarrow> None
         | e # es \<Rightarrow>
             if e = ch CHR ''u'' then
               (case es of
                  h1 # h2 # h3 # h4 # rest \<Rightarrow>
                    (case hex4_value h1 h2 h3 h4 of
                       None \<Rightarrow> None
                     | Some u \<Rightarrow>
                         (case parse_chars rest of
                            None \<Rightarrow> None
                          | Some (s, r) \<Rightarrow> Some (u # s, r)))
                | _ \<Rightarrow> None)
             else
               (case unescape e of
                  None \<Rightarrow> None
                | Some d \<Rightarrow>
                    (case parse_chars es of
                       None \<Rightarrow> None
                     | Some (s, r) \<Rightarrow> Some (d # s, r))))
      else if c < 0x20 then None
      else (case parse_chars cs of None \<Rightarrow> None | Some (s, r) \<Rightarrow> Some (c # s, r)))"

definition is_digit :: "16 word \<Rightarrow> bool" where
  "is_digit c \<longleftrightarrow> 0x30 \<le> c \<and> c \<le> 0x39"

text \<open>The digits of a number's integer part: a single 0, or a non-zero digit and more digits.\<close>

definition lex_int :: "jsstring \<Rightarrow> (jsstring \<times> jsstring) option" where
  "lex_int s =
     (case s of
        [] \<Rightarrow> None
      | c # cs \<Rightarrow>
          if c = 0x30 then Some ([c], cs)
          else if is_digit c then Some (c # takeWhile is_digit cs, dropWhile is_digit cs)
          else None)"

definition lex_frac :: "jsstring \<Rightarrow> (jsstring \<times> jsstring) option" where
  "lex_frac s =
     (case s of
        c # d # ds \<Rightarrow>
          if c = ch CHR ''.'' then
            (if is_digit d then Some (c # d # takeWhile is_digit ds, dropWhile is_digit ds) else None)
          else Some ([], s)
      | [c] \<Rightarrow> if c = ch CHR ''.'' then None else Some ([], s)
      | [] \<Rightarrow> Some ([], s))"

definition lex_digits1 :: "jsstring \<Rightarrow> (jsstring \<times> jsstring) option" where
  "lex_digits1 s =
     (case s of
        [] \<Rightarrow> None
      | d # ds \<Rightarrow> if is_digit d then Some (d # takeWhile is_digit ds, dropWhile is_digit ds) else None)"

definition lex_exp :: "jsstring \<Rightarrow> (jsstring \<times> jsstring) option" where
  "lex_exp s =
     (case s of
        [] \<Rightarrow> Some ([], s)
      | c # cs \<Rightarrow>
          if c = ch CHR ''e'' \<or> c = ch CHR ''E'' then
            (case cs of
               [] \<Rightarrow> None
             | g # gs \<Rightarrow>
                 if g = ch CHR ''+'' \<or> g = ch CHR ''-'' then
                   (case lex_digits1 gs of None \<Rightarrow> None | Some (ds, r) \<Rightarrow> Some (c # g # ds, r))
                 else
                   (case lex_digits1 cs of None \<Rightarrow> None | Some (ds, r) \<Rightarrow> Some (c # ds, r)))
          else Some ([], s))"

definition lex_number :: "jsstring \<Rightarrow> (jsstring \<times> jsstring) option" where
  "lex_number s =
     (let (sign, s1) = (case s of c # cs \<Rightarrow> if c = ch CHR ''-'' then ([c], cs) else ([], s) | [] \<Rightarrow> ([], s))
      in case lex_int s1 of
           None \<Rightarrow> None
         | Some (i, s2) \<Rightarrow>
             (case lex_frac s2 of
                None \<Rightarrow> None
              | Some (f, s3) \<Rightarrow>
                  (case lex_exp s3 of
                     None \<Rightarrow> None
                   | Some (e, s4) \<Rightarrow> Some (sign @ i @ f @ e, s4))))"

fun strip_prefix :: "jsstring \<Rightarrow> jsstring \<Rightarrow> jsstring option" where
  "strip_prefix [] s = Some s"
| "strip_prefix (p # ps) [] = None"
| "strip_prefix (p # ps) (c # cs) = (if p = c then strip_prefix ps cs else None)"

fun parse_value :: "nat \<Rightarrow> jsstring \<Rightarrow> (json \<times> jsstring) option"
  and parse_elements :: "nat \<Rightarrow> jsstring \<Rightarrow> (json list \<times> jsstring) option"
  and parse_members :: "nat \<Rightarrow> jsstring \<Rightarrow> ((jsstring \<times> json) list \<times> jsstring) option" where
  "parse_value 0 s = None"
| "parse_value (Suc n) [] = None"
| "parse_value (Suc n) (c # cs) =
     (if c = 0x22 then
        (case parse_chars cs of None \<Rightarrow> None | Some (s, r) \<Rightarrow> Some (JStr s, r))
      else if c = ch CHR ''['' then
        (case skip_ws cs of
           [] \<Rightarrow> None
         | d # ds \<Rightarrow>
             if d = ch CHR '']'' then Some (JArr [], ds)
             else (case parse_elements n (d # ds) of
                     None \<Rightarrow> None
                   | Some (vs, r) \<Rightarrow> Some (JArr vs, r)))
      else if c = ch CHR ''{'' then
        (case skip_ws cs of
           [] \<Rightarrow> None
         | d # ds \<Rightarrow>
             if d = ch CHR ''}'' then Some (JObj [], ds)
             else (case parse_members n (d # ds) of
                     None \<Rightarrow> None
                   | Some (kvs, r) \<Rightarrow> Some (JObj kvs, r)))
      else if c = ch CHR ''t'' then
        (case strip_prefix (js ''rue'') cs of None \<Rightarrow> None | Some r \<Rightarrow> Some (JBool True, r))
      else if c = ch CHR ''f'' then
        (case strip_prefix (js ''alse'') cs of None \<Rightarrow> None | Some r \<Rightarrow> Some (JBool False, r))
      else if c = ch CHR ''n'' then
        (case strip_prefix (js ''ull'') cs of None \<Rightarrow> None | Some r \<Rightarrow> Some (JNull, r))
      else
        (case lex_number (c # cs) of None \<Rightarrow> None | Some (lexeme, r) \<Rightarrow> Some (JNum lexeme, r)))"
| "parse_elements 0 s = None"
| "parse_elements (Suc n) s =
     (case parse_value n s of
        None \<Rightarrow> None
      | Some (v, r) \<Rightarrow>
          (case skip_ws r of
             [] \<Rightarrow> None
           | d # ds \<Rightarrow>
               if d = ch CHR '']'' then Some ([v], ds)
               else if d = ch CHR '','' then
                 (case parse_elements n (skip_ws ds) of
                    None \<Rightarrow> None
                  | Some (vs, r') \<Rightarrow> Some (v # vs, r'))
               else None))"
| "parse_members 0 s = None"
| "parse_members (Suc n) s =
     (case s of
        [] \<Rightarrow> None
      | q # cs \<Rightarrow>
          if q \<noteq> 0x22 then None
          else
            (case parse_chars cs of
               None \<Rightarrow> None
             | Some (k, r) \<Rightarrow>
                 (case skip_ws r of
                    [] \<Rightarrow> None
                  | colon # r1 \<Rightarrow>
                      if colon \<noteq> ch CHR '':'' then None
                      else
                        (case parse_value n (skip_ws r1) of
                           None \<Rightarrow> None
                         | Some (v, r2) \<Rightarrow>
                             (case skip_ws r2 of
                                [] \<Rightarrow> None
                              | d # ds \<Rightarrow>
                                  if d = ch CHR ''}'' then Some ([(k, v)], ds)
                                  else if d = ch CHR '','' then
                                    (case parse_members n (skip_ws ds) of
                                       None \<Rightarrow> None
                                     | Some (kvs, r') \<Rightarrow> Some ((k, v) # kvs, r'))
                                  else None)))))"

definition JSON_parse :: "jsstring \<Rightarrow> json option" where
  "JSON_parse text =
     (case parse_value (Suc (length text)) (skip_ws text) of
        None \<Rightarrow> None
      | Some (v, r) \<Rightarrow> if skip_ws r = [] then Some v else None)"


fun num_free :: "json \<Rightarrow> bool"
  and num_free_elements :: "json list \<Rightarrow> bool"
  and num_free_members :: "(jsstring \<times> json) list \<Rightarrow> bool" where
  "num_free JNull = True"
| "num_free (JBool b) = True"
| "num_free (JNum lexeme) = False"
| "num_free (JStr s) = True"
| "num_free (JArr vs) = num_free_elements vs"
| "num_free (JObj kvs) = num_free_members kvs"
| "num_free_elements [] = True"
| "num_free_elements (v # vs) = (num_free v \<and> num_free_elements vs)"
| "num_free_members [] = True"
| "num_free_members ((k, v) # kvs) = (num_free v \<and> num_free_members kvs)"

lemma hex_value_digit: "d < 16 \<Longrightarrow> hex_value (hex_digit d) = Some d"
proof -
  assume "d < 16"
  then have "d = 0 \<or> d = 1 \<or> d = 2 \<or> d = 3 \<or> d = 4 \<or> d = 5 \<or> d = 6 \<or> d = 7 \<or>
      d = 8 \<or> d = 9 \<or> d = 10 \<or> d = 11 \<or> d = 12 \<or> d = 13 \<or> d = 14 \<or> d = 15"
    by arith
  then show ?thesis
    by (elim disjE) (simp_all add: hex_value_def hex_digit_def)
qed

lemma hex_decomp:
  "(n::nat) div 4096 * 4096 + n div 256 mod 16 * 256 + n div 16 mod 16 * 16 + n mod 16 = n"
proof -
  have a: "n div 256 = n div 16 div 16" by (simp add: div_mult2_eq)
  have b: "n div 4096 = n div 16 div 16 div 16" by (simp add: div_mult2_eq)
  have 1: "n = n div 16 * 16 + n mod 16" by simp
  have 2: "n div 16 = n div 16 div 16 * 16 + n div 16 mod 16" by simp
  have 3: "n div 16 div 16 = n div 16 div 16 div 16 * 16 + n div 16 div 16 mod 16" by simp
  show ?thesis unfolding a b using 1 2 3 by linarith
qed

lemma hex4_value_hex4:
  "hex4_value (hex_digit (unat c div 4096)) (hex_digit (unat c div 256 mod 16))
     (hex_digit (unat c div 16 mod 16)) (hex_digit (unat c mod 16)) = Some c"
proof -
  have "unat c < 65536" using unsigned_less [of c, where 'a = nat] by simp
  then have "unat c div 4096 < 16" by arith
  then have a: "hex_value (hex_digit (unat c div 4096)) = Some (unat c div 4096)"
    by (rule hex_value_digit)
  have b: "hex_value (hex_digit (unat c div 256 mod 16)) = Some (unat c div 256 mod 16)"
    by (rule hex_value_digit) simp
  have d: "hex_value (hex_digit (unat c div 16 mod 16)) = Some (unat c div 16 mod 16)"
    by (rule hex_value_digit) simp
  have e: "hex_value (hex_digit (unat c mod 16)) = Some (unat c mod 16)"
    by (rule hex_value_digit) simp
  show ?thesis
    by (simp only: hex4_value_def a b d e prod.case option.case hex_decomp) simp
qed

lemma parse_chars_escape_u:
  "parse_chars (0x5C # 0x75 # hex4 c @ r) =
     (case parse_chars r of None \<Rightarrow> None | Some (s, r') \<Rightarrow> Some (c # s, r'))"
  by (simp add: hex4_def hex4_value_hex4)

lemma parse_chars_quote_unit:
  "parse_chars (quote_unit c @ r) =
     (case parse_chars r of None \<Rightarrow> None | Some (s, r') \<Rightarrow> Some (c # s, r'))"
proof -
  consider "c = 0x08" | "c = 0x09" | "c = 0x0A" | "c = 0x0C" | "c = 0x0D" | "c = 0x22" | "c = 0x5C"
    | "c \<notin> {0x08, 0x09, 0x0A, 0x0C, 0x0D, 0x22, 0x5C}"
      "c < 0x20 \<or> is_high_surrogate c \<or> is_low_surrogate c"
    | "c \<notin> {0x08, 0x09, 0x0A, 0x0C, 0x0D, 0x22, 0x5C}"
      "\<not> (c < 0x20 \<or> is_high_surrogate c \<or> is_low_surrogate c)"
    by blast
  then show ?thesis
  proof cases
    case 8
    then have "quote_unit c = 0x5C # 0x75 # hex4 c"
      by (simp add: quote_unit_def)
    then show ?thesis
      by (simp only: append_Cons parse_chars_escape_u)
  next
    case 9
    then show ?thesis by (simp add: quote_unit_def)
  qed (auto simp: quote_unit_def unescape_def split: option.splits)
qed


lemma parse_chars_literal:
  "c \<noteq> 0x22 \<Longrightarrow> c \<noteq> 0x5C \<Longrightarrow> \<not> c < 0x20 \<Longrightarrow>
   parse_chars (c # r) =
     (case parse_chars r of None \<Rightarrow> None | Some (s, r') \<Rightarrow> Some (c # s, r'))"
  by simp

lemma high_surrogate_literal:
  "is_high_surrogate c \<Longrightarrow> c \<noteq> 0x22 \<and> c \<noteq> 0x5C \<and> \<not> c < 0x20"
  by (auto simp: is_high_surrogate_def word_le_nat_alt word_less_nat_alt)

lemma low_surrogate_literal:
  "is_low_surrogate c \<Longrightarrow> c \<noteq> 0x22 \<and> c \<noteq> 0x5C \<and> \<not> c < 0x20"
  by (auto simp: is_low_surrogate_def word_le_nat_alt word_less_nat_alt)

lemma parse_chars_quote_units:
  "parse_chars (quote_units s @ 0x22 # rest) = Some (s, rest)"
proof (induction s rule: quote_units.induct)
  case 1
  show ?case by simp
next
  case (2 c)
  show ?case by (simp add: parse_chars_quote_unit)
next
  case (3 c d cs)
  show ?case
  proof (cases "is_high_surrogate c \<and> is_low_surrogate d")
    case True
    have q: "quote_units (c # d # cs) = c # d # quote_units cs"
      using True by simp
    have c: "c \<noteq> 0x22" "c \<noteq> 0x5C" "\<not> c < 0x20"
      using True high_surrogate_literal [of c] by simp_all
    have d: "d \<noteq> 0x22" "d \<noteq> 0x5C" "\<not> d < 0x20"
      using True low_surrogate_literal [of d] by simp_all
    have "parse_chars (c # d # quote_units cs @ 0x22 # rest) = Some (c # d # cs, rest)"
      by (simp only: parse_chars_literal [OF c] parse_chars_literal [OF d] "3.IH"(1) [OF True]
          option.case prod.case)
    then show ?thesis by (simp only: q append_Cons)
  next
    case False
    have q: "quote_units (c # d # cs) = quote_unit c @ quote_units (d # cs)"
      using False by auto
    show ?thesis
      by (simp only: q append_assoc parse_chars_quote_unit "3.IH"(2) [OF False] option.case
          prod.case)
  qed
qed


lemma parse_value_string:
  "parse_value (Suc n) (QuoteJSONString s @ rest) = Some (JStr s, rest)"
  by (simp add: QuoteJSONString_def parse_chars_quote_units del: parse_chars.simps)


definition value_start :: "16 word \<Rightarrow> bool" where
  "value_start c \<longleftrightarrow>
     c = 0x22 \<or> c = ch CHR ''['' \<or> c = ch CHR ''{'' \<or> c = ch CHR ''t'' \<or> c = ch CHR ''f'' \<or>
     c = ch CHR ''n''"

lemma value_start_plain:
  "value_start c \<Longrightarrow> \<not> is_json_ws c \<and> c \<noteq> ch CHR '']'' \<and> c \<noteq> ch CHR ''}''"
  by (auto simp: value_start_def is_json_ws_def)

lemma stringify_head:
  "num_free v \<Longrightarrow> \<exists>c cs. JSON_stringify v = c # cs \<and> value_start c"
  by (cases v) (auto simp: QuoteJSONString_def value_start_def)

lemma stringify_elements_head:
  "vs \<noteq> [] \<Longrightarrow> num_free_elements vs \<Longrightarrow>
   \<exists>c cs. stringify_elements vs = c # cs \<and> value_start c"
proof (cases vs)
  case Nil
  assume "vs \<noteq> []"
  with Nil show ?thesis by simp
next
  case (Cons v ws)
  assume "num_free_elements vs"
  then have "num_free v" using Cons by simp
  then obtain c cs where "JSON_stringify v = c # cs" "value_start c"
    using stringify_head by blast
  then show ?thesis using Cons by (cases ws) auto
qed

lemma stringify_members_head:
  "kvs \<noteq> [] \<Longrightarrow> \<exists>cs. stringify_members kvs = 0x22 # cs"
proof (cases kvs)
  case Nil
  assume "kvs \<noteq> []"
  with Nil show ?thesis by simp
next
  case (Cons kv ws)
  obtain k v where "kv = (k, v)" by (cases kv)
  then show ?thesis using Cons by (cases ws) (auto simp: QuoteJSONString_def)
qed

lemma parse_value_array_empty:
  "parse_value (Suc m) (ch CHR ''['' # ch CHR '']'' # rest) = Some (JArr [], rest)"
  by (simp add: skip_ws_def is_json_ws_def)

lemma parse_value_array:
  "value_start c \<Longrightarrow>
   parse_value (Suc m) (ch CHR ''['' # c # cs) =
     (case parse_elements m (c # cs) of None \<Rightarrow> None | Some (vs, r) \<Rightarrow> Some (JArr vs, r))"
  using value_start_plain [of c] by (simp add: skip_ws_def)

lemma parse_value_object_empty:
  "parse_value (Suc m) (ch CHR ''{'' # ch CHR ''}'' # rest) = Some (JObj [], rest)"
  by (simp add: skip_ws_def is_json_ws_def)

lemma parse_value_object:
  "parse_value (Suc m) (ch CHR ''{'' # 0x22 # cs) =
     (case parse_members m (0x22 # cs) of None \<Rightarrow> None | Some (kvs, r) \<Rightarrow> Some (JObj kvs, r))"
  by (simp add: skip_ws_def is_json_ws_def)

lemma parse_elements_last:
  "parse_value m s = Some (v, ch CHR '']'' # rest) \<Longrightarrow>
   parse_elements (Suc m) s = Some ([v], rest)"
  by (simp add: skip_ws_def is_json_ws_def)

lemma parse_elements_more:
  "parse_value m s = Some (v, ch CHR '','' # c # cs) \<Longrightarrow> value_start c \<Longrightarrow>
   parse_elements (Suc m) s =
     (case parse_elements m (c # cs) of None \<Rightarrow> None | Some (vs, r) \<Rightarrow> Some (v # vs, r))"
  using value_start_plain [of c] by (simp add: skip_ws_def is_json_ws_def)

lemma parse_members_last:
  "value_start c \<Longrightarrow> parse_value m (c # cs) = Some (v, ch CHR ''}'' # rest) \<Longrightarrow>
   parse_members (Suc m) (QuoteJSONString k @ ch CHR '':'' # c # cs) = Some ([(k, v)], rest)"
  using value_start_plain [of c]
  by (simp add: QuoteJSONString_def parse_chars_quote_units skip_ws_def is_json_ws_def
      del: parse_chars.simps)

lemma parse_members_more:
  "value_start c \<Longrightarrow> parse_value m (c # cs) = Some (v, ch CHR '','' # 0x22 # rest) \<Longrightarrow>
   parse_members (Suc m) (QuoteJSONString k @ ch CHR '':'' # c # cs) =
     (case parse_members m (0x22 # rest) of
        None \<Rightarrow> None
      | Some (kvs, r) \<Rightarrow> Some ((k, v) # kvs, r))"
  using value_start_plain [of c]
  by (simp add: QuoteJSONString_def parse_chars_quote_units skip_ws_def is_json_ws_def
      del: parse_chars.simps)


lemma parse_stringify:
  "num_free v \<Longrightarrow> length (JSON_stringify v) \<le> n \<Longrightarrow>
     parse_value n (JSON_stringify v @ rest) = Some (v, rest)"
  "vs \<noteq> [] \<Longrightarrow> num_free_elements vs \<Longrightarrow> length (stringify_elements vs) < n \<Longrightarrow>
     parse_elements n (stringify_elements vs @ ch CHR '']'' # rest) = Some (vs, rest)"
  "kvs \<noteq> [] \<Longrightarrow> num_free_members kvs \<Longrightarrow> length (stringify_members kvs) < n \<Longrightarrow>
     parse_members n (stringify_members kvs @ ch CHR ''}'' # rest) = Some (kvs, rest)"
proof (induction v and vs and kvs arbitrary: n rest and n rest and n rest
    rule: JSON_stringify_stringify_elements_stringify_members.induct)
  case 1
  then obtain m where "n = Suc m" by (cases n) auto
  then show ?case by simp
next
  case (2 b)
  then obtain m where "n = Suc m" by (cases n) (auto split: if_splits)
  then show ?case by simp
next
  case (3 lexeme)
  then show ?case by simp
next
  case (4 s)
  then obtain m where "n = Suc m" by (cases n) (auto simp: QuoteJSONString_def)
  then show ?case by (simp only: JSON_stringify.simps parse_value_string)
next
  case (5 vs)
  from "5.prems" obtain m where n: "n = Suc m" by (cases n) auto
  show ?case
  proof (cases "vs = []")
    case True
    then show ?thesis by (simp only: n JSON_stringify.simps stringify_elements.simps
          append_Nil append_Cons parse_value_array_empty)
  next
    case False
    have nf: "num_free_elements vs" using "5.prems" by simp
    obtain c cs where h: "stringify_elements vs = c # cs" "value_start c"
      using stringify_elements_head [OF False nf] by blast
    have len: "length (stringify_elements vs) < m" using "5.prems" n by simp
    have "parse_elements m (stringify_elements vs @ ch CHR '']'' # rest) = Some (vs, rest)"
      by (rule "5.IH" [OF False nf len])
    then have "parse_elements m (c # cs @ ch CHR '']'' # rest) = Some (vs, rest)"
      by (simp add: h)
    then have "parse_value (Suc m) (ch CHR ''['' # c # cs @ ch CHR '']'' # rest) = Some (JArr vs, rest)"
      by (simp only: parse_value_array [OF h(2)] option.case prod.case)
    then show ?thesis by (simp add: n h)
  qed
next
  case (6 kvs)
  from "6.prems" obtain m where n: "n = Suc m" by (cases n) auto
  show ?case
  proof (cases "kvs = []")
    case True
    then show ?thesis by (simp only: n JSON_stringify.simps stringify_members.simps
          append_Nil append_Cons parse_value_object_empty)
  next
    case False
    have nf: "num_free_members kvs" using "6.prems" by simp
    obtain cs where h: "stringify_members kvs = 0x22 # cs"
      using stringify_members_head [OF False] by blast
    have len: "length (stringify_members kvs) < m" using "6.prems" n by simp
    have "parse_members m (stringify_members kvs @ ch CHR ''}'' # rest) = Some (kvs, rest)"
      by (rule "6.IH" [OF False nf len])
    then have "parse_members m (0x22 # cs @ ch CHR ''}'' # rest) = Some (kvs, rest)"
      by (simp add: h)
    then have "parse_value (Suc m) (ch CHR ''{'' # 0x22 # cs @ ch CHR ''}'' # rest) = Some (JObj kvs, rest)"
      by (simp only: parse_value_object option.case prod.case)
    then show ?thesis by (simp add: n h)
  qed
next
  case 7
  then show ?case by simp
next
  case (8 v)
  from "8.prems" obtain m where n: "n = Suc m" by (cases n) auto
  have nf: "num_free v" using "8.prems" by simp
  have len: "length (JSON_stringify v) \<le> m" using "8.prems" n by simp
  have "parse_value m (JSON_stringify v @ ch CHR '']'' # rest) = Some (v, ch CHR '']'' # rest)"
    by (rule "8.IH" [OF nf len])
  then show ?case
    by (simp only: n stringify_elements.simps parse_elements_last)
next
  case (9 v w vs)
  from "9.prems" obtain m where n: "n = Suc m" by (cases n) auto
  have nf: "num_free v" and nfs: "num_free_elements (w # vs)" using "9.prems" by simp_all
  obtain c cs where h: "stringify_elements (w # vs) = c # cs" "value_start c"
    using stringify_elements_head [OF _ nfs] by blast
  have len: "length (JSON_stringify v) \<le> m" "length (stringify_elements (w # vs)) < m"
    using "9.prems" n by simp_all
  have v: "parse_value m (JSON_stringify v @ ch CHR '','' # c # cs @ ch CHR '']'' # rest) =
      Some (v, ch CHR '','' # c # cs @ ch CHR '']'' # rest)"
    by (rule "9.IH"(1) [OF nf len(1)])
  have "parse_elements m (stringify_elements (w # vs) @ ch CHR '']'' # rest) = Some (w # vs, rest)"
    by (rule "9.IH"(2) [OF _ nfs len(2)]) simp
  then have r: "parse_elements m (c # cs @ ch CHR '']'' # rest) = Some (w # vs, rest)"
    by (simp add: h)
  have "parse_elements (Suc m) (JSON_stringify v @ ch CHR '','' # c # cs @ ch CHR '']'' # rest) =
      Some (v # w # vs, rest)"
    by (simp only: parse_elements_more [OF v h(2)] r option.case prod.case)
  then show ?case by (simp add: n h)
next
  case 10
  then show ?case by simp
next
  case (11 k v)
  from "11.prems" obtain m where n: "n = Suc m" by (cases n) auto
  have nf: "num_free v" using "11.prems" by simp
  obtain c cs where h: "JSON_stringify v = c # cs" "value_start c"
    using stringify_head [OF nf] by blast
  have len: "length (JSON_stringify v) \<le> m" using "11.prems" n by simp
  have "parse_value m (JSON_stringify v @ ch CHR ''}'' # rest) = Some (v, ch CHR ''}'' # rest)"
    by (rule "11.IH" [OF nf len])
  then have v: "parse_value m (c # cs @ ch CHR ''}'' # rest) = Some (v, ch CHR ''}'' # rest)"
    by (simp add: h)
  have "parse_members (Suc m) (QuoteJSONString k @ ch CHR '':'' # c # cs @ ch CHR ''}'' # rest) =
      Some ([(k, v)], rest)"
    by (rule parse_members_last [OF h(2) v])
  then show ?case by (simp add: n h)
next
  case (12 k v kv kvs)
  from "12.prems" obtain m where n: "n = Suc m" by (cases n) auto
  have nf: "num_free v" and nfs: "num_free_members (kv # kvs)" using "12.prems" by simp_all
  obtain c cs where h: "JSON_stringify v = c # cs" "value_start c"
    using stringify_head [OF nf] by blast
  obtain ms where hm: "stringify_members (kv # kvs) = 0x22 # ms"
    using stringify_members_head [of "kv # kvs"] by auto
  have len: "length (JSON_stringify v) \<le> m" "length (stringify_members (kv # kvs)) < m"
    using "12.prems" n by simp_all
  have "parse_value m (JSON_stringify v @ ch CHR '','' # 0x22 # ms @ ch CHR ''}'' # rest) =
      Some (v, ch CHR '','' # 0x22 # ms @ ch CHR ''}'' # rest)"
    by (rule "12.IH"(1) [OF nf len(1)])
  then have v: "parse_value m (c # cs @ ch CHR '','' # 0x22 # ms @ ch CHR ''}'' # rest) =
      Some (v, ch CHR '','' # 0x22 # ms @ ch CHR ''}'' # rest)"
    by (simp add: h)
  have "parse_members m (stringify_members (kv # kvs) @ ch CHR ''}'' # rest) = Some (kv # kvs, rest)"
    by (rule "12.IH"(2) [OF _ nfs len(2)]) simp
  then have r: "parse_members m (0x22 # ms @ ch CHR ''}'' # rest) = Some (kv # kvs, rest)"
    by (simp add: hm)
  have "parse_members (Suc m)
      (QuoteJSONString k @ ch CHR '':'' # c # cs @ ch CHR '','' # 0x22 # ms @ ch CHR ''}'' # rest) =
      Some ((k, v) # kv # kvs, rest)"
    by (simp only: parse_members_more [OF h(2) v] r option.case prod.case)
  then show ?case by (simp add: n h hm)
qed

lemma JSON_parse_stringify_ws:
  assumes nf: "num_free v" and ws: "skip_ws trail = []"
  shows "JSON_parse (JSON_stringify v @ trail) = Some v"
proof -
  obtain c cs where h: "JSON_stringify v = c # cs" "value_start c"
    using stringify_head [OF nf] by blast
  have sk: "skip_ws (JSON_stringify v @ trail) = JSON_stringify v @ trail"
    using value_start_plain [OF h(2)] by (simp add: h skip_ws_def)
  have "parse_value (Suc (length (JSON_stringify v @ trail))) (JSON_stringify v @ trail) =
      Some (v, trail)"
    by (rule parse_stringify(1) [OF nf]) simp
  then show ?thesis
    by (simp add: JSON_parse_def sk ws)
qed

lemma JSON_parse_stringify:
  "num_free v \<Longrightarrow> JSON_parse (JSON_stringify v) = Some v"
  using JSON_parse_stringify_ws [of v "[]"] by (simp add: skip_ws_def)

lemma JSON_parse_stringify_line:
  "num_free v \<Longrightarrow> JSON_parse (JSON_stringify v @ [0x0A]) = Some v"
  by (rule JSON_parse_stringify_ws) (simp_all add: skip_ws_def is_json_ws_def)



section \<open>Building the provider command line\<close>

text \<open>
  \<^verbatim>\<open>
  export function escapeShellString(str: string): string {
    // Replace ' with '\'' and wrap in single quotes
    return `'${str.replace(/'/g, "'\\''")}'`;
  }
  \<close>
\<close>

fun escape_quotes :: "jsstring \<Rightarrow> jsstring" where
  "escape_quotes [] = []"
| "escape_quotes (c # cs) =
     (if c = 0x27 then [0x27, 0x5C, 0x27, 0x27] else [c]) @ escape_quotes cs"

definition escapeShellString :: "jsstring \<Rightarrow> jsstring" where
  "escapeShellString str = 0x27 # escape_quotes str @ [0x27]"

datatype PermissionMode = ModeAuto | ModePlan | ModeApprove

fun join :: "jsstring \<Rightarrow> jsstring list \<Rightarrow> jsstring" where
  "join sep [] = []"
| "join sep [p] = p"
| "join sep (p # q # ps) = p @ sep @ join sep (q # ps)"

text \<open>\<open>if (sessionId)\<close>: neither \<open>undefined\<close> nor the empty string.\<close>

fun given :: "jsstring option \<Rightarrow> bool" where
  "given None = False"
| "given (Some s) = (s \<noteq> [])"

text \<open>
  \<open>buildClaudeCommand\<close>. The path of the session's MCP configuration file is what
  \<open>createSessionMcpConfig\<close> returns (it writes the file); it is only used in the plan and
  approve modes.
\<close>

definition claudeCommandParts ::
  "jsstring \<Rightarrow> jsstring \<Rightarrow> jsstring option \<Rightarrow> jsstring \<Rightarrow> PermissionMode \<Rightarrow> jsstring
     \<Rightarrow> jsstring list" where
  "claudeCommandParts workingDir prompt sessionId mcpConfigPath mode model =
     (let escapedPrompt = escapeShellString prompt;
          commandParts =
            [js ''cd '' @ workingDir, js ''&&'', js ''claude'', js ''--output-format'',
             js ''stream-json'', js ''--model'', model, js ''-p'', escapedPrompt, js ''--verbose''] @
            (case mode of
               ModePlan \<Rightarrow>
                 [js ''--permission-mode'', js ''plan'', js ''--mcp-config'', mcpConfigPath,
                  js ''--permission-prompt-tool'', js ''mcp__discord-permissions__approve_tool'',
                  js ''--allowedTools'', js ''mcp__discord-permissions'']
             | ModeApprove \<Rightarrow>
                 [js ''--mcp-config'', mcpConfigPath,
                  js ''--permission-prompt-tool'', js ''mcp__discord-permissions__approve_tool'',
                  js ''--allowedTools'', js ''mcp__discord-permissions'']
             | ModeAuto \<Rightarrow> [js ''--dangerously-skip-permissions''])
      in if given sessionId
         then take 3 commandParts @ [js ''--resume'', the sessionId] @ drop 3 commandParts
         else commandParts)"

definition buildClaudeCommand ::
  "jsstring \<Rightarrow> jsstring \<Rightarrow> jsstring option \<Rightarrow> jsstring \<Rightarrow> PermissionMode \<Rightarrow> jsstring
     \<Rightarrow> jsstring" where
  "buildClaudeCommand workingDir prompt sessionId mcpConfigPath mode model =
     join (js '' '') (claudeCommandParts workingDir prompt sessionId mcpConfigPath mode model)"

definition buildCodexCommand :: "jsstring \<Rightarrow> jsstring \<Rightarrow> jsstring option \<Rightarrow> jsstring" where
  "buildCodexCommand workingDir prompt sessionId =
     (let escapedPrompt = escapeShellString prompt
      in if given sessionId
         then join (js '' '')
                [js ''codex'', js ''exec'', js ''resume'', js ''--json'',
                 js ''--dangerously-bypass-approvals-and-sandbox'', the sessionId, escapedPrompt]
         else join (js '' '')
                [js ''codex'', js ''exec'', js ''--json'',
                 js ''--dangerously-bypass-approvals-and-sandbox'', js ''-C'', workingDir,
                 escapedPrompt])"

subsection \<open>What the shell reads\<close>

text \<open>
  The quoting rules of the POSIX shell that the escaped prompt relies on, as a reader of
  one word: within single quotes every character stands for itself up to the closing
  quote; outside quotes a backslash makes the next character stand for itself (a
  backslash-newline pair is removed); an unquoted blank or the end of the input ends the
  word. The reader returns the word's value and the rest of the input. Any other unquoted
  character is outside the forms the escaped prompt uses, and the reader gives up on it.
\<close>

definition is_blank :: "16 word \<Rightarrow> bool" where
  "is_blank c \<longleftrightarrow> c = 0x20 \<or> c = 0x09 \<or> c = 0x0A"

fun posix_word :: "jsstring \<Rightarrow> (jsstring \<times> jsstring) option"
  and posix_single_quoted :: "jsstring \<Rightarrow> (jsstring \<times> jsstring) option" where
  "posix_word [] = Some ([], [])"
| "posix_word (c # cs) =
     (if is_blank c then Some ([], c # cs)
      else if c = 0x27 then posix_single_quoted cs
      else if c = 0x5C then
        (case cs of
           [] \<Rightarrow> None
         | d # ds \<Rightarrow>
             if d = 0x0A then posix_word ds
             else (case posix_word ds of None \<Rightarrow> None | Some (w, r) \<Rightarrow> Some (d # w, r)))
      else None)"
| "posix_single_quoted [] = None"
| "posix_single_quoted (c # cs) =
     (if c = 0x27 then posix_word cs
      else (case posix_single_quoted cs of None \<Rightarrow> None | Some (w, r) \<Rightarrow> Some (c # w, r)))"

lemma posix_single_quoted_escape:
  "posix_single_quoted (escape_quotes s @ 0x27 # rest) =
     (case posix_word rest of None \<Rightarrow> None | Some (w, r) \<Rightarrow> Some (s @ w, r))"
  by (induction s) (auto simp: is_blank_def split: option.splits)

text \<open>
  C9. For every prompt, the escaped prompt is one shell word whose value is the prompt:
  read on its own, and read where \<open>buildClaudeCommand\<close> puts it, followed by a space and
  the rest of the command line.
\<close>

theorem escapeShellString_roundtrip:
  "posix_word (escapeShellString prompt) = Some (prompt, []) \<and>
   posix_word (escapeShellString prompt @ 0x20 # rest) = Some (prompt, 0x20 # rest)"
  by (simp add: escapeShellString_def posix_single_quoted_escape is_blank_def)

text \<open>The empty prompt, and the prompt of three single quotes (the cases of the test suite).\<close>

theorem escapeShellString_roundtrip_witness:
  "escapeShellString [] = [0x27, 0x27] \<and>
   posix_word (escapeShellString []) = Some ([], []) \<and>
   escapeShellString [0x27, 0x27, 0x27] =
     [0x27, 0x27, 0x5C, 0x27, 0x27, 0x27, 0x5C, 0x27, 0x27, 0x27, 0x5C, 0x27, 0x27, 0x27] \<and>
   posix_word (escapeShellString [0x27, 0x27, 0x27]) = Some ([0x27, 0x27, 0x27], [])"
  using escapeShellString_roundtrip [of "[]"] escapeShellString_roundtrip [of "[0x27, 0x27, 0x27]"]
  by (simp add: escapeShellString_def)

lemma join_space_Cons: "ps \<noteq> [] \<Longrightarrow> join (js '' '') (p # ps) = p @ 0x20 # join (js '' '') ps"
  by (cases ps) simp_all

lemma claudeCommandParts_prompt:
  "\<exists>before after.
     claudeCommandParts workingDir prompt sessionId mcpConfigPath mode model =
       before @ js ''-p'' # escapeShellString prompt # js ''--verbose'' # after"
proof (cases "given sessionId")
  case True
  then show ?thesis
    unfolding claudeCommandParts_def Let_def
    by (intro exI [of _ "[js ''cd '' @ workingDir, js ''&&'', js ''claude'', js ''--resume'',
          the sessionId, js ''--output-format'', js ''stream-json'', js ''--model'', model]"] exI)
       simp
next
  case False
  then show ?thesis
    unfolding claudeCommandParts_def Let_def
    by (intro exI [of _ "[js ''cd '' @ workingDir, js ''&&'', js ''claude'',
          js ''--output-format'', js ''stream-json'', js ''--model'', model]"] exI)
       simp
qed


section \<open>The manager and its surroundings\<close>

type_synonym channel_id = jsstring
type_synonym msg_ref = nat
type_synonym pid = nat

datatype Provider = Claude | Codex

record proc_entry =
  process :: "pid option"
  sessionId :: "jsstring option"
  discordMessage :: msg_ref

record tool_call =
  message :: msg_ref
  toolId :: jsstring

record stdin_pipe =
  ended :: bool
  written :: "jsstring list"

record child =
  command :: jsstring
  run_channel :: channel_id
  run_provider :: Provider
  stdin :: "stdin_pipe option"
  signals :: "jsstring list"
  closed :: bool
  timeout_pending :: bool
  buffer :: jsstring

record embed =
  title :: "jsstring option"
  description :: "jsstring option"
  color :: "nat option"
  footer :: "jsstring option"
  embed_fields :: "(jsstring \<times> jsstring) list"

record discord_message =
  msg_channel :: channel_id
  content :: "jsstring option"
  embeds :: "embed list"
  components :: "(jsstring \<times> jsstring) list list"

text \<open>
  What the bot reports on its error console: the \<open>console.error\<close> calls of the source
  that the properties below speak about, a rejected handler promise (logged by
  \<open>.catch(console.error)\<close>), and a write to a stream that was ended.
\<close>

datatype console_entry =
    CannotSendToolResponse
  | ErrorRunningProvider jsstring
  | ErrorUpdatingToolResult
  | HandlerRejected
  | WriteAfterEnd

record state =
  baseFolder :: jsstring
  allowedUserId :: jsstring
  channelMessages :: "channel_id \<rightharpoonup> msg_ref"
  channelToolCalls :: "channel_id \<rightharpoonup> (jsstring \<rightharpoonup> tool_call)"
  channelNames :: "channel_id \<rightharpoonup> jsstring"
  channelProcesses :: "channel_id \<rightharpoonup> proc_entry"
  channel_sessions :: "channel_id \<rightharpoonup> jsstring \<times> jsstring"
  channel_modes :: "channel_id \<rightharpoonup> PermissionMode"
  channel_models :: "channel_id \<rightharpoonup> jsstring"
  channel_providers :: "channel_id \<rightharpoonup> Provider"
  channel_paths :: "channel_id \<rightharpoonup> jsstring"
  children :: "child list"
  chat :: "discord_message list"
  console :: "console_entry list"
  directories :: "jsstring set"

definition SIGTERM :: jsstring where
  "SIGTERM = js ''SIGTERM''"

definition kill :: "pid \<Rightarrow> jsstring \<Rightarrow> state \<Rightarrow> state" where
  "kill p sig s =
     s\<lparr>children := (children s)[p := (children s ! p)\<lparr>signals := signals (children s ! p) @ [sig]\<rparr>]\<rparr>"

definition hasActiveProcess :: "state \<Rightarrow> channel_id \<Rightarrow> bool" where
  "hasActiveProcess s channelId \<longleftrightarrow> channelProcesses s channelId \<noteq> None"

definition killActiveProcess :: "channel_id \<Rightarrow> state \<Rightarrow> state" where
  "killActiveProcess channelId s =
     (case channelProcesses s channelId of
        None \<Rightarrow> s
      | Some activeProcess \<Rightarrow>
          (case process activeProcess of None \<Rightarrow> s | Some p \<Rightarrow> kill p SIGTERM s))"

definition db_clearSession :: "channel_id \<Rightarrow> state \<Rightarrow> state" where
  "db_clearSession channelId s = s\<lparr>channel_sessions := (channel_sessions s)(channelId := None)\<rparr>"

definition clearSession :: "channel_id \<Rightarrow> state \<Rightarrow> state" where
  "clearSession channelId s =
     (let s1 = killActiveProcess channelId s;
          s2 = db_clearSession channelId s1
      in s2\<lparr>channelMessages := (channelMessages s2)(channelId := None),
             channelToolCalls := (channelToolCalls s2)(channelId := None),
             channelNames := (channelNames s2)(channelId := None),
             channelProcesses := (channelProcesses s2)(channelId := None)\<rparr>)"

definition reserveChannel :: "channel_id \<Rightarrow> jsstring option \<Rightarrow> msg_ref \<Rightarrow> state \<Rightarrow> state" where
  "reserveChannel channelId sid reply s =
     (let s1 = (case channelProcesses s channelId of
                  None \<Rightarrow> s
                | Some existingProcess \<Rightarrow>
                    (case process existingProcess of None \<Rightarrow> s | Some p \<Rightarrow> kill p SIGTERM s))
      in s1\<lparr>channelProcesses := (channelProcesses s1)(channelId \<mapsto>
              \<lparr>process = None, sessionId = sid, discordMessage = reply\<rparr>)\<rparr>)"


definition setDiscordMessage :: "channel_id \<Rightarrow> msg_ref \<Rightarrow> state \<Rightarrow> state" where
  "setDiscordMessage channelId reply s =
     s\<lparr>channelMessages := (channelMessages s)(channelId \<mapsto> reply),
       channelToolCalls := (channelToolCalls s)(channelId \<mapsto> Map.empty)\<rparr>"

definition getSessionId :: "state \<Rightarrow> channel_id \<Rightarrow> jsstring option" where
  "getSessionId s channelId = map_option fst (channel_sessions s channelId)"

definition db_setSession :: "channel_id \<Rightarrow> jsstring \<Rightarrow> jsstring \<Rightarrow> state \<Rightarrow> state" where
  "db_setSession channelId sid channelName s =
     s\<lparr>channel_sessions := (channel_sessions s)(channelId \<mapsto> (sid, channelName))\<rparr>"

definition getMode :: "state \<Rightarrow> channel_id \<Rightarrow> PermissionMode" where
  "getMode s channelId = (case channel_modes s channelId of None \<Rightarrow> ModeAuto | Some m \<Rightarrow> m)"

definition getModel :: "state \<Rightarrow> channel_id \<Rightarrow> jsstring" where
  "getModel s channelId =
     (case channel_models s channelId of None \<Rightarrow> js ''sonnet'' | Some m \<Rightarrow> if m = [] then js ''sonnet'' else m)"

definition getProvider :: "state \<Rightarrow> channel_id \<Rightarrow> Provider" where
  "getProvider s channelId = (case channel_providers s channelId of None \<Rightarrow> Claude | Some p \<Rightarrow> p)"

definition getPath :: "state \<Rightarrow> channel_id \<Rightarrow> jsstring option" where
  "getPath s channelId = channel_paths s channelId"

definition setProvider :: "channel_id \<Rightarrow> Provider \<Rightarrow> state \<Rightarrow> state" where
  "setProvider channelId provider s =
     clearSession channelId (s\<lparr>channel_providers := (channel_providers s)(channelId \<mapsto> provider)\<rparr>)"

subsection \<open>The chat surface\<close>

definition mk_embed :: "jsstring \<Rightarrow> jsstring \<Rightarrow> nat \<Rightarrow> embed" where
  "mk_embed t d c =
     \<lparr>title = Some t, description = Some d, color = Some c, footer = None, embed_fields = []\<rparr>"

definition channel_send ::
  "channel_id \<Rightarrow> jsstring option \<Rightarrow> embed list \<Rightarrow> (jsstring \<times> jsstring) list list \<Rightarrow> state \<Rightarrow> state" where
  "channel_send chan text es rows s =
     s\<lparr>chat := chat s @ [\<lparr>msg_channel = chan, content = text, embeds = es, components = rows\<rparr>]\<rparr>"

definition message_edit :: "msg_ref \<Rightarrow> embed list \<Rightarrow> state \<Rightarrow> state" where
  "message_edit ref es s = s\<lparr>chat := (chat s)[ref := (chat s ! ref)\<lparr>embeds := es\<rparr>]\<rparr>"

definition message_edit_clear :: "msg_ref \<Rightarrow> embed list \<Rightarrow> state \<Rightarrow> state" where
  "message_edit_clear ref es s =
     s\<lparr>chat := (chat s)[ref := (chat s ! ref)\<lparr>embeds := es, components := []\<rparr>]\<rparr>"

definition status_channel :: "state \<Rightarrow> channel_id \<Rightarrow> channel_id option" where
  "status_channel s channelId =
     (case channelMessages s channelId of
        None \<Rightarrow> None
      | Some ref \<Rightarrow> Some (msg_channel (chat s ! ref)))"

definition post_embed :: "channel_id \<Rightarrow> embed \<Rightarrow> state \<Rightarrow> state" where
  "post_embed channelId e s =
     (case status_channel s channelId of
        None \<Rightarrow> s
      | Some chan \<Rightarrow> channel_send chan None [e] [] s)"

fun show_nat :: "nat \<Rightarrow> jsstring" where
  "show_nat n = (if n < 10 then [of_nat (48 + n)] else show_nat (n div 10) @ [of_nat (48 + n mod 10)])"

declare show_nat.simps [simp del]

definition show_int :: "int \<Rightarrow> jsstring" where
  "show_int i = (if i < 0 then 0x2D # show_nat (nat (- i)) else show_nat (nat i))"

subsection \<open>Starting a run\<close>

text \<open>
  \<open>path.join\<close> of two strings, on POSIX: the arguments that are not empty are joined by a
  slash and the result is normalised. Normalising drops the empty segments and the
  segments \<open>.\<close>; a segment \<open>..\<close> removes the segment before it, is dropped at the root of an
  absolute path, and is kept at the start of a relative one; a trailing slash is kept.
\<close>

fun split_slash :: "jsstring \<Rightarrow> jsstring list" where
  "split_slash [] = [[]]"
| "split_slash (c # cs) =
     (if c = 0x2F then [] # split_slash cs
      else (c # hd (split_slash cs)) # tl (split_slash cs))"

fun normalizeString :: "bool \<Rightarrow> jsstring list \<Rightarrow> jsstring list \<Rightarrow> jsstring list" where
  "normalizeString allowAboveRoot res [] = res"
| "normalizeString allowAboveRoot res (seg # segs) =
     (if seg = [] \<or> seg = js ''.'' then normalizeString allowAboveRoot res segs
      else if seg = js ''..'' then
        (if res \<noteq> [] \<and> last res \<noteq> js ''..'' then normalizeString allowAboveRoot (butlast res) segs
         else if allowAboveRoot then normalizeString allowAboveRoot (res @ [js ''..'']) segs
         else normalizeString allowAboveRoot res segs)
      else normalizeString allowAboveRoot (res @ [seg]) segs)"

definition path_normalize :: "jsstring \<Rightarrow> jsstring" where
  "path_normalize p =
     (if p = [] then js ''.''
      else
        (let isAbsolute = (hd p = 0x2F);
             trailingSeparator = (last p = 0x2F);
             res = join (js ''/'') (normalizeString (\<not> isAbsolute) [] (split_slash p))
         in if res = [] then
              (if isAbsolute then js ''/'' else if trailingSeparator then js ''./'' else js ''.'')
            else (if isAbsolute then [0x2F] else []) @ res @ (if trailingSeparator then [0x2F] else [])))"

definition path_join :: "jsstring \<Rightarrow> jsstring \<Rightarrow> jsstring" where
  "path_join base name =
     (let parts = filter (\<lambda>part. part \<noteq> []) [base, name]
      in if parts = [] then js ''.'' else path_normalize (join (js ''/'') parts))"

datatype run_error = WorkingDirectoryDoesNotExist jsstring

definition error_message :: "run_error \<Rightarrow> jsstring" where
  "error_message e =
     (case e of WorkingDirectoryDoesNotExist d \<Rightarrow> js ''Working directory does not exist: '' @ d)"

definition spawn :: "jsstring \<Rightarrow> channel_id \<Rightarrow> Provider \<Rightarrow> stdin_pipe option \<Rightarrow> state \<Rightarrow> state" where
  "spawn commandString channelId provider pipe s =
     s\<lparr>children := children s @
         [\<lparr>command = commandString, run_channel = channelId, run_provider = provider,
           stdin = pipe, signals = [], closed = False, timeout_pending = False, buffer = []\<rparr>]\<rparr>"

definition track_process :: "channel_id \<Rightarrow> pid \<Rightarrow> state \<Rightarrow> state" where
  "track_process channelId p s =
     (case channelProcesses s channelId of
        None \<Rightarrow> s
      | Some channelProcess \<Rightarrow>
          s\<lparr>channelProcesses := (channelProcesses s)(channelId \<mapsto> channelProcess\<lparr>process := Some p\<rparr>)\<rparr>)"

definition stdin_end :: "pid \<Rightarrow> state \<Rightarrow> state" where
  "stdin_end p s =
     s\<lparr>children := (children s)[p := (children s ! p)\<lparr>stdin :=
         map_option (\<lambda>pipe. pipe\<lparr>ended := True\<rparr>) (stdin (children s ! p))\<rparr>]\<rparr>"

definition setTimeout :: "pid \<Rightarrow> state \<Rightarrow> state" where
  "setTimeout p s = s\<lparr>children := (children s)[p := (children s ! p)\<lparr>timeout_pending := True\<rparr>]\<rparr>"

definition clearTimeout :: "pid \<Rightarrow> state \<Rightarrow> state" where
  "clearTimeout p s = s\<lparr>children := (children s)[p := (children s ! p)\<lparr>timeout_pending := False\<rparr>]\<rparr>"

definition folder_name :: "state \<Rightarrow> channel_id \<Rightarrow> jsstring \<Rightarrow> jsstring" where
  "folder_name s channelId channelName =
     (case getPath s channelId of
        None \<Rightarrow> channelName
      | Some customPath \<Rightarrow> if customPath = [] then channelName else customPath)"

definition runCodex ::
  "channel_id \<Rightarrow> jsstring \<Rightarrow> jsstring \<Rightarrow> jsstring option \<Rightarrow> state \<Rightarrow> run_error option \<times> state" where
  "runCodex channelId channelName prompt sid s =
     (let folderName = folder_name s channelId channelName;
          s1 = s\<lparr>channelNames := (channelNames s)(channelId \<mapsto> folderName)\<rparr>;
          workingDir = path_join (baseFolder s1) folderName
      in if workingDir \<notin> directories s1 then (Some (WorkingDirectoryDoesNotExist workingDir), s1)
         else
           (let commandString = buildCodexCommand workingDir prompt sid;
                codex = length (children s1);
                s2 = spawn commandString channelId Codex None s1;
                s3 = track_process channelId codex s2
            in (None, setTimeout codex s3)))"

definition runClaudeCode ::
  "channel_id \<Rightarrow> jsstring \<Rightarrow> jsstring \<Rightarrow> jsstring option \<Rightarrow> jsstring \<Rightarrow> state
     \<Rightarrow> run_error option \<times> state" where
  "runClaudeCode channelId channelName prompt sid mcpConfigPath s =
     (if getProvider s channelId = Codex then runCodex channelId channelName prompt sid s
      else
        (let folderName = folder_name s channelId channelName;
             s1 = s\<lparr>channelNames := (channelNames s)(channelId \<mapsto> folderName)\<rparr>;
             workingDir = path_join (baseFolder s1) folderName
         in if workingDir \<notin> directories s1 then (Some (WorkingDirectoryDoesNotExist workingDir), s1)
            else
              (let commandString =
                     buildClaudeCommand workingDir prompt sid mcpConfigPath
                       (getMode s1 channelId) (getModel s1 channelId);
                   claude = length (children s1);
                   s2 = spawn commandString channelId Claude (Some \<lparr>ended = False, written = []\<rparr>) s1;
                   s3 = track_process channelId claude s2;
                   s4 = stdin_end claude s3
               in (None, setTimeout claude s4))))"


subsection \<open>The handlers of a run\<close>

text \<open>
  The result message as \<open>handleResultMessage\<close> reads it. Each property is absent
  (\<open>None\<close>) or has its declared type. A number is carried by what the handler reads from
  it: whether it is below \<open>0.01\<close>, and the texts \<open>toFixed(2)\<close> gives for it and for a hundred
  times it.
\<close>

record js_number =
  below_cent :: bool
  toFixed2 :: jsstring
  cents_toFixed2 :: jsstring

record result_message =
  session_id :: "jsstring option"
  subtype :: "jsstring option"
  num_turns :: "nat option"
  total_cost_usd :: "js_number option"
  result :: "jsstring option"

text \<open>How the promise of an asynchronous handler settles.\<close>

datatype settled = Resolved | Rejected

definition channel_name_or_default :: "state \<Rightarrow> channel_id \<Rightarrow> jsstring" where
  "channel_name_or_default s channelId =
     (case channelNames s channelId of
        None \<Rightarrow> js ''default''
      | Some n \<Rightarrow> if n = [] then js ''default'' else n)"

text \<open>
  \<open>handleResultMessage\<close>. The session id is stored first; the column is \<open>NOT NULL\<close>, so
  storing an absent id throws. Without a status message for the channel the handler
  returns. Formatting the cost calls \<open>toFixed\<close> on it, which throws when the cost is absent.
  An absent property in a template reads \<open>undefined\<close>.
\<close>

definition handleResultMessage :: "channel_id \<Rightarrow> result_message \<Rightarrow> state \<Rightarrow> settled \<times> state" where
  "handleResultMessage channelId parsed s =
     (case session_id parsed of
        None \<Rightarrow> (Rejected, s)
      | Some sid \<Rightarrow>
          (let s1 = db_setSession channelId sid (channel_name_or_default s channelId) s
           in case status_channel s1 channelId of
                None \<Rightarrow> (Resolved, s1)
              | Some chan \<Rightarrow>
                  (case total_cost_usd parsed of
                     None \<Rightarrow> (Rejected, s1)
                   | Some cost \<Rightarrow>
                       (let costStr = (if below_cent cost then cents_toFixed2 cost @ [0xA2]
                                       else 0x24 # toFixed2 cost);
                            turns = (case num_turns parsed of
                                       None \<Rightarrow> js ''undefined'' | Some n \<Rightarrow> show_nat n);
                            stats = 0x2A # turns @ js '' turns '' @ 0xB7 # 0x20 # costStr @ [0x2A]
                        in if subtype parsed = Some (js ''success'') then
                             (let resultText = (case result parsed of None \<Rightarrow> [] | Some r \<Rightarrow> r);
                                  description =
                                    (if getMode s1 channelId = ModePlan \<and> 50 < length resultText then
                                       (if 3800 < length resultText
                                        then take 3800 resultText @ [0x0A, 0x0A] @
                                             js ''*... (truncated)*''
                                        else resultText) @ [0x0A, 0x0A] @ stats
                                     else stats)
                              in (Resolved,
                                  channel_send chan None
                                    [mk_embed (0x2705 # js '' Session Complete'') description 0x00FF00]
                                    [] s1))
                           else
                             (Resolved,
                              channel_send chan None
                                [mk_embed (0x274C # js '' Session Failed'')
                                   (js ''Task failed: '' @
                                    (case subtype parsed of
                                       None \<Rightarrow> js ''undefined'' | Some t \<Rightarrow> t) @
                                    0x0A # stats) 0xFF0000]
                                [] s1)))))"

definition forget_process :: "channel_id \<Rightarrow> state \<Rightarrow> state" where
  "forget_process channelId s = s\<lparr>channelProcesses := (channelProcesses s)(channelId := None)\<rparr>"

text \<open>
  The result branch of the stdout loop: the timer is cleared, the process is sent SIGTERM
  and the entry is deleted in the \<open>then\<close> of the handler's promise; a rejection goes to
  \<open>catch(console.error)\<close>.
\<close>

definition claude_on_result :: "pid \<Rightarrow> result_message \<Rightarrow> state \<Rightarrow> state" where
  "claude_on_result claude parsed s =
     (let channelId = run_channel (children s ! claude)
      in case handleResultMessage channelId parsed s of
           (Resolved, s1) \<Rightarrow> forget_process channelId (kill claude SIGTERM (clearTimeout claude s1))
         | (Rejected, s1) \<Rightarrow> s1\<lparr>console := console s1 @ [HandlerRejected]\<rparr>)"

definition claude_on_close :: "pid \<Rightarrow> int option \<Rightarrow> state \<Rightarrow> state" where
  "claude_on_close claude code s =
     (let channelId = run_channel (children s ! claude);
          s1 = clearTimeout claude s;
          s2 = forget_process channelId s1
      in case code of
           None \<Rightarrow> s2
         | Some n \<Rightarrow>
             if n \<noteq> 0 then
               post_embed channelId
                 (mk_embed (0x274C # js '' Claude Code Failed'')
                    (js ''Process exited with code: '' @ show_int n) 0xFF0000) s2
             else s2)"

definition claude_on_error :: "pid \<Rightarrow> jsstring \<Rightarrow> state \<Rightarrow> state" where
  "claude_on_error claude error_text s =
     (let channelId = run_channel (children s ! claude);
          s1 = clearTimeout claude s;
          s2 = forget_process channelId s1
      in post_embed channelId (mk_embed (0x274C # js '' Process Error'') error_text 0xFF0000) s2)"

definition claude_on_timeout :: "pid \<Rightarrow> state \<Rightarrow> state" where
  "claude_on_timeout claude s =
     (let channelId = run_channel (children s ! claude);
          s1 = kill claude SIGTERM s
      in post_embed channelId
           (mk_embed (0x23F0 # js '' Timeout'')
              (js ''Claude Code took too long to respond (5 minutes)'') 0xFFD700) s1)"

definition codex_on_close :: "pid \<Rightarrow> int option \<Rightarrow> state \<Rightarrow> state" where
  "codex_on_close codex code s =
     (let channelId = run_channel (children s ! codex);
          s1 = clearTimeout codex s;
          s2 = forget_process channelId s1
      in case code of
           None \<Rightarrow> s2
         | Some n \<Rightarrow>
             if n \<noteq> 0 then
               post_embed channelId
                 (mk_embed (0x274C # js '' Codex Failed'')
                    (js ''Process exited with code: '' @ show_int n) 0xFF0000) s2
             else s2)"

definition codex_on_error :: "pid \<Rightarrow> jsstring \<Rightarrow> state \<Rightarrow> state" where
  "codex_on_error codex error_text s =
     (let channelId = run_channel (children s ! codex);
          s1 = clearTimeout codex s;
          s2 = forget_process channelId s1
      in post_embed channelId (mk_embed (0x274C # js '' Process Error'') error_text 0xFF0000) s2)"

definition codex_on_timeout :: "pid \<Rightarrow> state \<Rightarrow> state" where
  "codex_on_timeout codex s =
     (let channelId = run_channel (children s ! codex);
          s1 = kill codex SIGTERM s
      in post_embed channelId
           (mk_embed (0x23F0 # js '' Timeout'')
              (js ''Codex took too long to respond (5 minutes)'') 0xFFD700) s1)"

subsection \<open>Message intake\<close>

text \<open>
  \<open>handleMessage\<close> for a message whose waits (the folder prompt, the download of the
  attachments, the sending of the status message) end before the bot handles its next
  event: the message is handled in one step, from the busy check to the spawn. The
  outcome of the folder prompt and the downloaded attachments come with the message.
\<close>

datatype folder_choice = FolderCreate | FolderCancel | FolderTimeout

record attachment =
  originalName :: jsstring
  tempPath :: jsstring
  isImage :: bool

record inbound =
  author_bot :: bool
  author_id :: jsstring
  in_channel :: channel_id
  in_channel_name :: "jsstring option"
  in_content :: jsstring
  in_folder_choice :: folder_choice
  in_downloaded :: "attachment list"
  in_mcp_config_path :: jsstring

fun attachment_refs :: "nat \<Rightarrow> attachment list \<Rightarrow> jsstring list" where
  "attachment_refs i [] = []"
| "attachment_refs i (att # atts) =
     (js ''- '' @ (if isImage att then js ''Image'' else js ''File'') @ 0x20 # show_nat (i + 1) @
      js '': '' @ 0x22 # originalName att @ 0x22 # js '' at '' @ tempPath att)
     # attachment_refs (i + 1) atts"

definition buildPromptWithAttachments :: "jsstring \<Rightarrow> attachment list \<Rightarrow> jsstring" where
  "buildPromptWithAttachments text attachments =
     (if attachments = [] then text
      else text @ [0x0A, 0x0A] @ js ''---'' @ 0x0A #
           js ''Attached files (downloaded to local paths for you to read):'' @ 0x0A #
           join [0x0A] (attachment_refs 0 attachments))"

definition provider_label :: "Provider \<Rightarrow> jsstring" where
  "provider_label p = (case p of Codex \<Rightarrow> js ''Codex'' | Claude \<Rightarrow> js ''Claude Code'')"

definition start_session :: "inbound \<Rightarrow> jsstring \<Rightarrow> state \<Rightarrow> state" where
  "start_session m channelName s =
     (let channelId = in_channel m;
          providerLabel = provider_label (getProvider s channelId);
          sid = getSessionId s channelId;
          statusEmbed =
            (if \<not> given sid then
               mk_embed (0xD83C # 0xDD95 # js '' Starting New Session'')
                 (js ''Initializing '' @ providerLabel @ js ''...'') 0xFFD700
             else
               mk_embed (0xD83D # 0xDD04 # js '' Continuing Session'')
                 (js ''**Session ID:** '' @ the sid @ 0x0A # js ''Resuming '' @ providerLabel @ js ''...'')
                 0xFFD700);
          reply = length (chat s);
          s1 = channel_send channelId None [statusEmbed] [] s;
          s2 = setDiscordMessage channelId reply s1;
          enhancedPrompt = buildPromptWithAttachments (in_content m) (in_downloaded m);
          s3 = reserveChannel channelId sid reply s2
      in case runClaudeCode channelId channelName enhancedPrompt sid (in_mcp_config_path m) s3 of
           (None, s4) \<Rightarrow> s4
         | (Some e, s4) \<Rightarrow>
             channel_send channelId (Some (js ''Error: '' @ error_message e)) [] []
               (clearSession channelId (s4\<lparr>console := console s4 @ [ErrorRunningProvider (error_message e)]\<rparr>)))"


definition starts_with :: "jsstring \<Rightarrow> jsstring \<Rightarrow> bool" where
  "starts_with s p \<longleftrightarrow> take (length p) s = p"

definition handleMessage :: "inbound \<Rightarrow> state \<Rightarrow> state" where
  "handleMessage m s =
     (let channelId = in_channel m in
      if author_bot m then s
      else if author_id m \<noteq> allowedUserId s then s
      else if hasActiveProcess s channelId then s
      else
        (let channelName = (case in_channel_name m of None \<Rightarrow> js ''default'' | Some n \<Rightarrow> n);
             providerLabel = provider_label (getProvider s channelId)
         in if channelName = js ''general'' then s
            else if starts_with (in_content m) (js ''/'') then s
            else
              (let projectPath = path_join (baseFolder s) (folder_name s channelId channelName)
               in if projectPath \<notin> directories s then
                    (let infoMsg = length (chat s);
                         s1 = channel_send channelId None
                                [mk_embed (0xD83D # 0xDCC1 # js '' New Project Channel'')
                                   (js ''This channel will create a '' @ providerLabel @
                                    js '' session in:'' @ 0x0A # 0x60 # projectPath @ 0x60 # 0x0A # 0x0A #
                                    js ''**Create Folder** - Create the folder and start working'' @ 0x0A #
                                    js ''**Change Path** - Use '' @ 0x60 # js ''/setpath <folder>'' @ 0x60 #
                                    js '' to map to a different folder first'')
                                   0x5865F2]
                                [[(js ''folder_create'', js ''Create Folder''),
                                  (js ''folder_cancel'', js ''Change Path'')]] s
                     in case in_folder_choice m of
                          FolderCreate \<Rightarrow>
                            start_session m channelName
                              (message_edit_clear infoMsg
                                 [mk_embed (0x2705 # js '' Folder Created'')
                                    (js ''Created '' @ 0x60 # projectPath @ [0x60]) 0x00FF00]
                                 (s1\<lparr>directories := insert projectPath (directories s1)\<rparr>))
                        | FolderCancel \<Rightarrow>
                            message_edit_clear infoMsg
                              [mk_embed (0x2139 # 0xFE0F # js '' Path Change Required'')
                                 (js ''Use '' @ 0x60 # js ''/setpath <folder>'' @ 0x60 #
                                  js '' to set a custom path, then send your message again.'')
                                 0xFFD700] s1
                        | FolderTimeout \<Rightarrow>
                            message_edit_clear infoMsg
                              [mk_embed (0x23F0 # js '' Timed Out'')
                                 (js ''No response. Use '' @ 0x60 # js ''/setpath'' @ 0x60 #
                                  js '' or send your message again.'')
                                 0xFFD700] s1)
                  else start_session m channelName s)))"

subsection \<open>Events\<close>

datatype event =
    Inbound inbound
  | ResultLine pid result_message
  | Close pid "int option"
  | ProcessError pid jsstring
  | TimerFired pid

definition mark_closed :: "pid \<Rightarrow> state \<Rightarrow> state" where
  "mark_closed p s = s\<lparr>children := (children s)[p := (children s ! p)\<lparr>closed := True\<rparr>]\<rparr>"

definition timer_done :: "pid \<Rightarrow> state \<Rightarrow> state" where
  "timer_done p s = s\<lparr>children := (children s)[p := (children s ! p)\<lparr>timeout_pending := False\<rparr>]\<rparr>"

definition awaits_events :: "state \<Rightarrow> pid \<Rightarrow> bool" where
  "awaits_events s p \<longleftrightarrow> p < length (children s) \<and> \<not> closed (children s ! p)"

fun deliver :: "event \<Rightarrow> state \<Rightarrow> state" where
  "deliver (Inbound m) s = handleMessage m s"
| "deliver (ResultLine p parsed) s =
     (if awaits_events s p \<and> run_provider (children s ! p) = Claude then claude_on_result p parsed s
      else s)"
| "deliver (Close p code) s =
     (if awaits_events s p then
        (case run_provider (children s ! p) of
           Claude \<Rightarrow> claude_on_close p code (mark_closed p s)
         | Codex \<Rightarrow> codex_on_close p code (mark_closed p s))
      else s)"
| "deliver (ProcessError p error_text) s =
     (if awaits_events s p then
        (case run_provider (children s ! p) of
           Claude \<Rightarrow> claude_on_error p error_text s
         | Codex \<Rightarrow> codex_on_error p error_text s)
      else s)"
| "deliver (TimerFired p) s =
     (if p < length (children s) \<and> timeout_pending (children s ! p) then
        (case run_provider (children s ! p) of
           Claude \<Rightarrow> claude_on_timeout p (timer_done p s)
         | Codex \<Rightarrow> codex_on_timeout p (timer_done p s))
      else s)"

definition run_events :: "event list \<Rightarrow> state \<Rightarrow> state" where
  "run_events evs s = fold deliver evs s"

definition live_processes :: "state \<Rightarrow> channel_id \<Rightarrow> pid list" where
  "live_processes s channelId =
     filter (\<lambda>p. run_channel (children s ! p) = channelId \<and> \<not> closed (children s ! p))
       [0..<length (children s)]"


section \<open>Properties of the process lifecycle\<close>

subsection \<open>A fixture\<close>

text \<open>
  A bot with one project folder, a prompt of its owner in the channel of that folder, and
  the result line a Claude run ends with.
\<close>

definition fresh_bot :: state where
  "fresh_bot =
     \<lparr>baseFolder = js ''/base'', allowedUserId = js ''owner'',
      channelMessages = Map.empty, channelToolCalls = Map.empty, channelNames = Map.empty,
      channelProcesses = Map.empty, channel_sessions = Map.empty, channel_modes = Map.empty,
      channel_models = Map.empty, channel_providers = Map.empty, channel_paths = Map.empty,
      children = [], chat = [], console = [], directories = {js ''/base/proj''}\<rparr>"

definition prompt_in_proj :: "jsstring \<Rightarrow> inbound" where
  "prompt_in_proj text =
     \<lparr>author_bot = False, author_id = js ''owner'', in_channel = js ''c1'',
      in_channel_name = Some (js ''proj''), in_content = text, in_folder_choice = FolderTimeout,
      in_downloaded = [], in_mcp_config_path = js ''/tmp/mcp.json''\<rparr>"

definition done_message :: result_message where
  "done_message =
     \<lparr>session_id = Some (js ''s1''), subtype = Some (js ''success''), num_turns = Some 1,
      total_cost_usd =
        Some \<lparr>below_cent = False, toFixed2 = js ''0.01'', cents_toFixed2 = js ''1.00''\<rparr>,
      result = Some (js ''ok'')\<rparr>"

lemma path_join_base_proj: "path_join (js ''/base'') (js ''proj'') = js ''/base/proj''"
  by (simp add: path_join_def path_normalize_def Let_def)

lemmas run_defs = run_events_def handleMessage_def start_session_def runClaudeCode_def runCodex_def
  reserveChannel_def setDiscordMessage_def channel_send_def getSessionId_def getProvider_def
  getMode_def getModel_def getPath_def folder_name_def path_join_base_proj [simplified] spawn_def
  track_process_def
  stdin_end_def setTimeout_def clearTimeout_def kill_def hasActiveProcess_def starts_with_def
  claude_on_result_def claude_on_close_def handleResultMessage_def forget_process_def
  post_embed_def status_channel_def db_setSession_def mark_closed_def awaits_events_def
  provider_label_def buildPromptWithAttachments_def channel_name_or_default_def
  setProvider_def clearSession_def killActiveProcess_def db_clearSession_def
  fresh_bot_def prompt_in_proj_def done_message_def Let_def

text \<open>The bot after one prompt: a Claude process, number 0, runs for channel \<open>c1\<close>.\<close>

definition running_bot :: state where
  "running_bot = deliver (Inbound (prompt_in_proj (js ''one''))) fresh_bot"

lemma running_bot_entry:
  "channelProcesses running_bot (js ''c1'') =
     Some \<lparr>process = Some 0, sessionId = None, discordMessage = 0\<rparr>"
  by (simp add: running_bot_def run_defs)

lemma running_bot_children:
  "length (children running_bot) = 1 \<and> signals (children running_bot ! 0) = [] \<and>
   run_channel (children running_bot ! 0) = js ''c1'' \<and>
   stdin (children running_bot ! 0) = Some \<lparr>ended = True, written = []\<rparr>"
  by (simp add: running_bot_def run_defs)

subsection \<open>Reserving a channel\<close>

text \<open>
  C1. Two reservations of a channel in a row, from any state: after the first the channel
  counts as busy; after the second the channel has exactly the placeholder entry of the
  second reservation (no process handle) and every other channel's entry is as before; and
  the only signal sent is one SIGTERM to the process the channel's entry held before the
  first reservation, if it held one.
\<close>

theorem reserveChannel_twice:
  "hasActiveProcess (reserveChannel c sid1 m1 s) c \<and>
   channelProcesses (reserveChannel c sid1 m1 s) c =
     Some \<lparr>process = None, sessionId = sid1, discordMessage = m1\<rparr> \<and>
   channelProcesses (reserveChannel c sid2 m2 (reserveChannel c sid1 m1 s)) =
     (channelProcesses s)(c \<mapsto> \<lparr>process = None, sessionId = sid2, discordMessage = m2\<rparr>) \<and>
   children (reserveChannel c sid2 m2 (reserveChannel c sid1 m1 s)) =
     (case channelProcesses s c of
        None \<Rightarrow> children s
      | Some existingProcess \<Rightarrow>
          (case process existingProcess of
             None \<Rightarrow> children s
           | Some p \<Rightarrow>
               (children s)[p := (children s ! p)\<lparr>signals := signals (children s ! p) @ [SIGTERM]\<rparr>]))"
  by (simp add: reserveChannel_def hasActiveProcess_def kill_def Let_def split: option.splits)

theorem reserveChannel_twice_witness:
  "channelProcesses running_bot (js ''c1'') =
     Some \<lparr>process = Some 0, sessionId = None, discordMessage = 0\<rparr> \<and>
   hasActiveProcess (reserveChannel (js ''c1'') None 1 running_bot) (js ''c1'') \<and>
   channelProcesses
     (reserveChannel (js ''c1'') None 2 (reserveChannel (js ''c1'') None 1 running_bot)) (js ''c1'') =
     Some \<lparr>process = None, sessionId = None, discordMessage = 2\<rparr> \<and>
   map signals
     (children (reserveChannel (js ''c1'') None 2 (reserveChannel (js ''c1'') None 1 running_bot))) =
     [[SIGTERM]]"
proof -
  have sigs: "map signals (children running_bot) = [[]]"
    by (simp add: running_bot_def run_defs)
  show ?thesis
    using reserveChannel_twice [of "js ''c1''" None 1 running_bot None 2]
    by (simp add: running_bot_entry [simplified] running_bot_children [simplified] map_update sigs)
qed


subsection \<open>Exit paths\<close>

lemma channelProcesses_post_embed [simp]:
  "channelProcesses (post_embed channelId e s) = channelProcesses s"
  by (simp add: post_embed_def channel_send_def split: option.splits)

lemma channelProcesses_handleResultMessage [simp]:
  "channelProcesses (snd (handleResultMessage channelId parsed s)) = channelProcesses s"
  by (simp add: handleResultMessage_def db_setSession_def channel_send_def Let_def
      split: option.splits)

lemma children_handleResultMessage [simp]:
  "children (snd (handleResultMessage channelId parsed s)) = children s"
  by (simp add: handleResultMessage_def db_setSession_def channel_send_def Let_def
      split: option.splits)

lemma console_handleResultMessage [simp]:
  "console (snd (handleResultMessage channelId parsed s)) = console s"
  by (simp add: handleResultMessage_def db_setSession_def channel_send_def Let_def
      split: option.splits)

text \<open>When the promise of \<open>handleResultMessage\<close> resolves.\<close>

lemma handleResultMessage_resolves:
  "fst (handleResultMessage channelId parsed s) = Resolved \<longleftrightarrow>
     session_id parsed \<noteq> None \<and>
     (status_channel s channelId = None \<or> total_cost_usd parsed \<noteq> None)"
  by (auto simp add: handleResultMessage_def db_setSession_def status_channel_def Let_def
      split: option.splits)

lemma claude_on_close_forgets:
  "channelProcesses (claude_on_close claude code s) (run_channel (children s ! claude)) = None"
  by (cases code) (simp_all add: claude_on_close_def forget_process_def clearTimeout_def Let_def)

lemma claude_on_error_forgets:
  "channelProcesses (claude_on_error claude error_text s) (run_channel (children s ! claude)) = None"
  by (simp add: claude_on_error_def forget_process_def clearTimeout_def Let_def)

text \<open>
  The result branch removes the entry when the handler's promise resolves; when it
  rejects, the entry, the timer and the process are left as they are and the rejection is
  logged.
\<close>

lemma claude_on_result_forgets:
  assumes "fst (handleResultMessage (run_channel (children s ! claude)) parsed s) = Resolved"
  shows "channelProcesses (claude_on_result claude parsed s) (run_channel (children s ! claude)) = None"
proof -
  obtain r s1 where h: "handleResultMessage (run_channel (children s ! claude)) parsed s = (r, s1)"
    by (cases "handleResultMessage (run_channel (children s ! claude)) parsed s")
  then have "r = Resolved" using assms by simp
  then show ?thesis
    using h by (simp add: claude_on_result_def forget_process_def Let_def)
qed

lemma claude_on_result_rejected:
  assumes "fst (handleResultMessage (run_channel (children s ! claude)) parsed s) = Rejected"
  shows "channelProcesses (claude_on_result claude parsed s) = channelProcesses s"
    and "children (claude_on_result claude parsed s) = children s"
    and "console (claude_on_result claude parsed s) = console s @ [HandlerRejected]"
proof -
  let ?c = "run_channel (children s ! claude)"
  obtain r s1 where h: "handleResultMessage ?c parsed s = (r, s1)"
    by (cases "handleResultMessage ?c parsed s")
  then have r: "r = Rejected" using assms by simp
  have s1: "channelProcesses s1 = channelProcesses s" "children s1 = children s"
    "console s1 = console s"
    using channelProcesses_handleResultMessage [of ?c parsed s]
      children_handleResultMessage [of ?c parsed s]
      console_handleResultMessage [of ?c parsed s] h by simp_all
  show "channelProcesses (claude_on_result claude parsed s) = channelProcesses s"
    and "children (claude_on_result claude parsed s) = children s"
    and "console (claude_on_result claude parsed s) = console s @ [HandlerRejected]"
    using h r s1 by (simp_all add: claude_on_result_def Let_def)
qed

text \<open>The close and the error handler through the event loop, for a process that has not closed yet.\<close>

lemma deliver_exit_forgets_process:
  assumes "awaits_events s p" and "run_provider (children s ! p) = Claude"
  shows "channelProcesses (deliver (Close p code) s) (run_channel (children s ! p)) = None"
    and "channelProcesses (deliver (ProcessError p error_text) s) (run_channel (children s ! p)) = None"
proof -
  have rc: "run_channel (children (mark_closed p s) ! p) = run_channel (children s ! p)"
    using assms(1) by (simp add: mark_closed_def awaits_events_def)
  show "channelProcesses (deliver (Close p code) s) (run_channel (children s ! p)) = None"
    using assms claude_on_close_forgets [of p code "mark_closed p s"] rc by simp
  show "channelProcesses (deliver (ProcessError p error_text) s) (run_channel (children s ! p)) = None"
    using assms claude_on_error_forgets [of p error_text s] by simp
qed

lemma codex_exit_paths_forget_process:
  "channelProcesses (codex_on_close codex code s) (run_channel (children s ! codex)) = None \<and>
   channelProcesses (codex_on_error codex error_text s) (run_channel (children s ! codex)) = None"
  by (cases code) (simp_all add: codex_on_close_def codex_on_error_def forget_process_def
      clearTimeout_def Let_def)

subsection \<open>One process per channel\<close>

text \<open>A message for a channel that has an entry is dropped: nothing changes.\<close>

lemma handleMessage_busy:
  "hasActiveProcess s (in_channel m) \<Longrightarrow> handleMessage m s = s"
  by (simp add: handleMessage_def Let_def)

text \<open>
  The close handler removes the channel's entry whichever process the entry holds. A
  process that is killed when its result arrives closes later; if a new prompt has started
  the next process in between, the late close removes the entry of the new process.
\<close>

lemma close_forgets_any_entry:
  assumes "awaits_events s p" and "run_provider (children s ! p) = Claude"
    and "channelProcesses s (run_channel (children s ! p)) = Some entry"
  shows "\<not> hasActiveProcess (deliver (Close p code) s) (run_channel (children s ! p))"
  using deliver_exit_forgets_process(1) [OF assms(1,2)] by (simp add: hasActiveProcess_def)

text \<open>
  C4. The claim: at most one process that has not terminated per channel, and a message
  for a busy channel is dropped. The trace: a prompt starts process 0; its result line
  arrives (process 0 is sent SIGTERM and the entry is removed); a second prompt starts
  process 1; process 0 closes, and its close handler removes the entry of process 1; the
  channel now counts as idle although process 1 runs, so a third prompt is not dropped
  and starts process 2. Processes 1 and 2 both run, and neither was sent a signal.
\<close>

definition stale_close_trace :: "event list" where
  "stale_close_trace =
     [Inbound (prompt_in_proj (js ''one'')), ResultLine 0 done_message,
      Inbound (prompt_in_proj (js ''two'')), Close 0 None]"

theorem stale_close_two_live_processes:
  "live_processes (run_events stale_close_trace fresh_bot) (js ''c1'') = [1] \<and>
   \<not> hasActiveProcess (run_events stale_close_trace fresh_bot) (js ''c1'') \<and>
   live_processes
     (run_events (stale_close_trace @ [Inbound (prompt_in_proj (js ''three''))]) fresh_bot)
     (js ''c1'') = [1, 2] \<and>
   map signals
     (children (run_events (stale_close_trace @ [Inbound (prompt_in_proj (js ''three''))]) fresh_bot)) =
     [[SIGTERM], [], []]"
  by (simp add: stale_close_trace_def live_processes_def run_defs upt_rec)


subsection \<open>Switching the provider\<close>

lemma setProvider_state:
  "getProvider (setProvider c provider s) c = provider \<and>
   channel_sessions (setProvider c provider s) c = None \<and>
   channelMessages (setProvider c provider s) c = None \<and>
   channelToolCalls (setProvider c provider s) c = None \<and>
   channelNames (setProvider c provider s) c = None \<and>
   channelProcesses (setProvider c provider s) c = None"
  by (simp add: setProvider_def clearSession_def db_clearSession_def killActiveProcess_def
      kill_def getProvider_def Let_def split: option.splits)

lemma setProvider_children:
  "children (setProvider c provider s) =
     (case channelProcesses s c of
        None \<Rightarrow> children s
      | Some activeProcess \<Rightarrow>
          (case process activeProcess of
             None \<Rightarrow> children s
           | Some p \<Rightarrow>
               (children s)[p := (children s ! p)\<lparr>signals := signals (children s ! p) @ [SIGTERM]\<rparr>]))"
  by (simp add: setProvider_def clearSession_def db_clearSession_def killActiveProcess_def
      kill_def Let_def split: option.splits)

lemma setProvider_frame:
  "baseFolder (setProvider c provider s) = baseFolder s \<and>
   allowedUserId (setProvider c provider s) = allowedUserId s \<and>
   directories (setProvider c provider s) = directories s \<and>
   channel_paths (setProvider c provider s) = channel_paths s \<and>
   channel_modes (setProvider c provider s) = channel_modes s \<and>
   channel_models (setProvider c provider s) = channel_models s \<and>
   chat (setProvider c provider s) = chat s"
  by (simp add: setProvider_def clearSession_def db_clearSession_def killActiveProcess_def
      kill_def Let_def split: option.splits)

text \<open>
  What a session start spawns when the project folder exists: the command of the
  channel's provider, built with the session id the store holds for the channel.
\<close>

definition session_command :: "inbound \<Rightarrow> jsstring \<Rightarrow> state \<Rightarrow> jsstring" where
  "session_command m channelName s =
     (let channelId = in_channel m;
          workingDir = path_join (baseFolder s) (folder_name s channelId channelName);
          enhancedPrompt = buildPromptWithAttachments (in_content m) (in_downloaded m)
      in case getProvider s channelId of
           Codex \<Rightarrow> buildCodexCommand workingDir enhancedPrompt (getSessionId s channelId)
         | Claude \<Rightarrow>
             buildClaudeCommand workingDir enhancedPrompt (getSessionId s channelId)
               (in_mcp_config_path m) (getMode s channelId) (getModel s channelId))"

lemma map_update_same: "f y = f (xs ! p) \<Longrightarrow> map f (xs[p := y]) = map f xs"
  by (induction xs arbitrary: p) (auto split: nat.splits)

lemma reserveChannel_commands:
  "map command (children (reserveChannel c sid r s)) = map command (children s) \<and>
   length (children (reserveChannel c sid r s)) = length (children s)"
  by (simp add: reserveChannel_def kill_def Let_def map_update_same split: option.splits)

lemma reserveChannel_frame:
  "baseFolder (reserveChannel c sid r s) = baseFolder s \<and>
   directories (reserveChannel c sid r s) = directories s \<and>
   channel_paths (reserveChannel c sid r s) = channel_paths s \<and>
   channel_modes (reserveChannel c sid r s) = channel_modes s \<and>
   channel_models (reserveChannel c sid r s) = channel_models s \<and>
   channel_providers (reserveChannel c sid r s) = channel_providers s \<and>
   channel_sessions (reserveChannel c sid r s) = channel_sessions s \<and>
   channelProcesses (reserveChannel c sid r s) c =
     Some \<lparr>process = None, sessionId = sid, discordMessage = r\<rparr>"
  by (simp add: reserveChannel_def kill_def Let_def split: option.splits)

lemma runCodex_spawns:
  assumes "path_join (baseFolder s) (folder_name s c channelName) \<in> directories s"
    and "channelProcesses s c = Some entry"
  shows "fst (runCodex c channelName prompt sid s) = None"
    and "map command (children (snd (runCodex c channelName prompt sid s))) =
           map command (children s) @
             [buildCodexCommand (path_join (baseFolder s) (folder_name s c channelName)) prompt sid]"
    and "channelProcesses (snd (runCodex c channelName prompt sid s)) c =
           Some (entry\<lparr>process := Some (length (children s))\<rparr>)"
  using assms
  by (simp_all add: runCodex_def spawn_def track_process_def setTimeout_def folder_name_def
      getPath_def Let_def)

lemma runClaudeCode_spawns:
  assumes "path_join (baseFolder s) (folder_name s c channelName) \<in> directories s"
    and "channelProcesses s c = Some entry"
    and "getProvider s c = Claude"
  shows "fst (runClaudeCode c channelName prompt sid mcp s) = None"
    and "map command (children (snd (runClaudeCode c channelName prompt sid mcp s))) =
           map command (children s) @
             [buildClaudeCommand (path_join (baseFolder s) (folder_name s c channelName)) prompt sid
                mcp (getMode s c) (getModel s c)]"
    and "channelProcesses (snd (runClaudeCode c channelName prompt sid mcp s)) c =
           Some (entry\<lparr>process := Some (length (children s))\<rparr>)"
  using assms
  by (simp_all add: runClaudeCode_def spawn_def track_process_def setTimeout_def stdin_end_def
      folder_name_def getPath_def getMode_def getModel_def Let_def)


definition reserved_for :: "inbound \<Rightarrow> state \<Rightarrow> state" where
  "reserved_for m s =
     (let channelId = in_channel m;
          providerLabel = provider_label (getProvider s channelId);
          sid = getSessionId s channelId;
          statusEmbed =
            (if \<not> given sid then
               mk_embed (0xD83C # 0xDD95 # js '' Starting New Session'')
                 (js ''Initializing '' @ providerLabel @ js ''...'') 0xFFD700
             else
               mk_embed (0xD83D # 0xDD04 # js '' Continuing Session'')
                 (js ''**Session ID:** '' @ the sid @ 0x0A # js ''Resuming '' @ providerLabel @ js ''...'')
                 0xFFD700);
          reply = length (chat s);
          s1 = channel_send channelId None [statusEmbed] [] s;
          s2 = setDiscordMessage channelId reply s1
      in reserveChannel channelId sid reply s2)"

lemma start_session_reserved:
  "start_session m channelName s =
     (case runClaudeCode (in_channel m) channelName
             (buildPromptWithAttachments (in_content m) (in_downloaded m))
             (getSessionId s (in_channel m)) (in_mcp_config_path m) (reserved_for m s) of
        (None, s4) \<Rightarrow> s4
      | (Some e, s4) \<Rightarrow>
          channel_send (in_channel m) (Some (js ''Error: '' @ error_message e)) [] []
            (clearSession (in_channel m)
               (s4\<lparr>console := console s4 @ [ErrorRunningProvider (error_message e)]\<rparr>)))"
  by (simp add: start_session_def reserved_for_def Let_def)

lemma reserved_for_frame:
  "baseFolder (reserved_for m s) = baseFolder s \<and>
   directories (reserved_for m s) = directories s \<and>
   channel_paths (reserved_for m s) = channel_paths s \<and>
   channel_modes (reserved_for m s) = channel_modes s \<and>
   channel_models (reserved_for m s) = channel_models s \<and>
   channel_providers (reserved_for m s) = channel_providers s \<and>
   map command (children (reserved_for m s)) = map command (children s) \<and>
   length (children (reserved_for m s)) = length (children s) \<and>
   channelProcesses (reserved_for m s) (in_channel m) =
     Some \<lparr>process = None, sessionId = getSessionId s (in_channel m),
           discordMessage = length (chat s)\<rparr>"
  by (simp add: reserved_for_def Let_def reserveChannel_frame reserveChannel_commands
      setDiscordMessage_def channel_send_def)

lemma start_session_spawns:
  assumes dir: "path_join (baseFolder s) (folder_name s (in_channel m) channelName) \<in> directories s"
  shows "map command (children (start_session m channelName s)) =
           map command (children s) @ [session_command m channelName s]"
    and "channelProcesses (start_session m channelName s) (in_channel m) =
           Some \<lparr>process = Some (length (children s)),
                 sessionId = getSessionId s (in_channel m), discordMessage = length (chat s)\<rparr>"
proof -
  let ?c = "in_channel m"
  let ?r = "reserved_for m s"
  let ?prompt = "buildPromptWithAttachments (in_content m) (in_downloaded m)"
  let ?sid = "getSessionId s ?c"
  let ?run = "runClaudeCode ?c channelName ?prompt ?sid (in_mcp_config_path m) ?r"
  note fr = reserved_for_frame [of m s]
  have same: "folder_name ?r ?c channelName = folder_name s ?c channelName"
    "getProvider ?r ?c = getProvider s ?c" "getMode ?r ?c = getMode s ?c"
    "getModel ?r ?c = getModel s ?c"
    using fr by (simp_all add: folder_name_def getPath_def getProvider_def getMode_def getModel_def)
  have dir': "path_join (baseFolder ?r) (folder_name ?r ?c channelName) \<in> directories ?r"
    using dir fr same by simp
  have entry: "channelProcesses ?r ?c =
      Some \<lparr>process = None, sessionId = ?sid, discordMessage = length (chat s)\<rparr>"
    using fr by simp
  have run: "fst ?run = None \<and>
      map command (children (snd ?run)) = map command (children s) @ [session_command m channelName s] \<and>
      channelProcesses (snd ?run) ?c =
        Some \<lparr>process = Some (length (children s)), sessionId = ?sid,
              discordMessage = length (chat s)\<rparr>"
  proof (cases "getProvider s ?c")
    case Claude
    then have p: "getProvider ?r ?c = Claude" using same by simp
    show ?thesis
      using runClaudeCode_spawns [OF dir' entry p, of ?prompt ?sid "in_mcp_config_path m"]
        fr same Claude
      by (simp add: session_command_def Let_def)
  next
    case Codex
    then have p: "getProvider ?r ?c = Codex" using same by simp
    have eq: "?run = runCodex ?c channelName ?prompt ?sid ?r"
      using p by (simp add: runClaudeCode_def)
    show ?thesis
      using runCodex_spawns [OF dir' entry, of ?prompt ?sid] fr same Codex
      by (simp add: eq session_command_def Let_def)
  qed
  obtain e s4 where pair: "?run = (e, s4)" by (cases ?run)
  then have "e = None" using run by simp
  then have st: "start_session m channelName s = snd ?run"
    using pair by (simp add: start_session_reserved)
  show "map command (children (start_session m channelName s)) =
           map command (children s) @ [session_command m channelName s]"
    using run st by simp
  show "channelProcesses (start_session m channelName s) (in_channel m) =
           Some \<lparr>process = Some (length (children s)),
                 sessionId = getSessionId s (in_channel m), discordMessage = length (chat s)\<rparr>"
    using run st by simp
qed


definition channel_name_of :: "inbound \<Rightarrow> jsstring" where
  "channel_name_of m = (case in_channel_name m of None \<Rightarrow> js ''default'' | Some n \<Rightarrow> n)"

definition accepted :: "inbound \<Rightarrow> state \<Rightarrow> bool" where
  "accepted m s \<longleftrightarrow>
     \<not> author_bot m \<and> author_id m = allowedUserId s \<and> channel_name_of m \<noteq> js ''general'' \<and>
     \<not> starts_with (in_content m) (js ''/'') \<and>
     path_join (baseFolder s) (folder_name s (in_channel m) (channel_name_of m)) \<in> directories s"

lemma handleMessage_accepted:
  "accepted m s \<Longrightarrow> \<not> hasActiveProcess s (in_channel m) \<Longrightarrow>
   handleMessage m s = start_session m (channel_name_of m) s"
  by (simp add: accepted_def handleMessage_def channel_name_of_def Let_def)

lemma accepted_setProvider: "accepted m (setProvider c provider s) = accepted m s"
  using setProvider_frame [of c provider s]
  by (simp add: accepted_def folder_name_def getPath_def)

text \<open>
  After \<open>setProvider\<close>, from any state: the channel has the new provider, no stored
  session id, no status message, no tool-call table, no channel name and no process
  entry; the only signal sent is one SIGTERM to the process the entry held, if it held
  one; and a prompt the intake accepts for the channel, handled before any other event,
  is not dropped and starts the new provider's command built without a session id.
\<close>

lemma setProvider_then_prompt:
  "getProvider (setProvider c provider s) c = provider \<and>
   getSessionId (setProvider c provider s) c = None \<and>
   channelMessages (setProvider c provider s) c = None \<and>
   channelToolCalls (setProvider c provider s) c = None \<and>
   channelNames (setProvider c provider s) c = None \<and>
   channelProcesses (setProvider c provider s) c = None \<and>
   children (setProvider c provider s) =
     (case channelProcesses s c of
        None \<Rightarrow> children s
      | Some activeProcess \<Rightarrow>
          (case process activeProcess of
             None \<Rightarrow> children s
           | Some p \<Rightarrow>
               (children s)[p := (children s ! p)\<lparr>signals := signals (children s ! p) @ [SIGTERM]\<rparr>])) \<and>
   (accepted m s \<and> in_channel m = c \<longrightarrow>
      map command (children (handleMessage m (setProvider c provider s))) =
        map command (children s) @
          [let workingDir = path_join (baseFolder s) (folder_name s c (channel_name_of m));
               prompt = buildPromptWithAttachments (in_content m) (in_downloaded m)
           in case provider of
                Codex \<Rightarrow> buildCodexCommand workingDir prompt None
              | Claude \<Rightarrow>
                  buildClaudeCommand workingDir prompt None (in_mcp_config_path m)
                    (getMode s c) (getModel s c)])"
proof -
  let ?s = "setProvider c provider s"
  note st = setProvider_state [of c provider s]
  note fr = setProvider_frame [of c provider s]
  have sid: "getSessionId ?s c = None"
    using st by (simp add: getSessionId_def)
  have next_prompt: "map command (children (handleMessage m ?s)) =
      map command (children s) @
        [let workingDir = path_join (baseFolder s) (folder_name s c (channel_name_of m));
             prompt = buildPromptWithAttachments (in_content m) (in_downloaded m)
         in case provider of
              Codex \<Rightarrow> buildCodexCommand workingDir prompt None
            | Claude \<Rightarrow>
                buildClaudeCommand workingDir prompt None (in_mcp_config_path m)
                  (getMode s c) (getModel s c)]"
    if acc: "accepted m s" and ch: "in_channel m = c"
  proof -
    have acc': "accepted m ?s" using acc by (simp add: accepted_setProvider)
    have idle: "\<not> hasActiveProcess ?s (in_channel m)"
      using st ch by (simp add: hasActiveProcess_def)
    have dir: "path_join (baseFolder ?s) (folder_name ?s (in_channel m) (channel_name_of m))
        \<in> directories ?s"
      using acc' by (simp add: accepted_def)
    have same: "folder_name ?s c (channel_name_of m) = folder_name s c (channel_name_of m)"
      "getMode ?s c = getMode s c" "getModel ?s c = getModel s c"
      using fr by (simp_all add: folder_name_def getPath_def getMode_def getModel_def)
    have cmds: "map command (children ?s) = map command (children s)"
      by (simp add: setProvider_children map_update_same split: option.splits)
    have "map command (children (handleMessage m ?s)) =
        map command (children ?s) @ [session_command m (channel_name_of m) ?s]"
      using start_session_spawns(1) [OF dir] handleMessage_accepted [OF acc' idle] by simp
    then show ?thesis
      using st sid ch fr same cmds
      by (cases provider) (simp_all add: session_command_def Let_def)
  qed
  show ?thesis
    using st sid setProvider_children [of c provider s] next_prompt by simp
qed

text \<open>
  The process that \<open>setProvider\<close> signals keeps its handlers until it closes. A result
  line it still delivers is handled like any other: \<open>handleResultMessage\<close> stores the
  session id of the line before it looks for the channel's status message.
\<close>

definition resumable_bot :: state where
  "resumable_bot = db_setSession (js ''c1'') (js ''s1'') (js ''proj'') running_bot"

definition switched_bot :: state where
  "switched_bot = deliver (ResultLine 0 done_message) (setProvider (js ''c1'') Codex resumable_bot)"

text \<open>
  C10. The claim: after a switch of the provider the first prompt starts a session with no
  continuation id. The trace: channel \<open>c1\<close> runs Claude process 0 and has the stored
  session id \<open>s1\<close>; the provider is switched to Codex, which clears the session and sends
  SIGTERM to process 0; the result line of process 0 arrives and stores \<open>s1\<close> again, for
  the idle channel whose provider is now Codex; the next prompt starts
  \<open>codex exec resume\<close> with the session id of the Claude run.
\<close>

theorem late_result_restores_session:
  "getSessionId resumable_bot (js ''c1'') = Some (js ''s1'') \<and>
   hasActiveProcess resumable_bot (js ''c1'') \<and>
   getSessionId (setProvider (js ''c1'') Codex resumable_bot) (js ''c1'') = None \<and>
   map signals (children (setProvider (js ''c1'') Codex resumable_bot)) = [[SIGTERM]] \<and>
   map closed (children (setProvider (js ''c1'') Codex resumable_bot)) = [False] \<and>
   getSessionId switched_bot (js ''c1'') = Some (js ''s1'') \<and>
   getProvider switched_bot (js ''c1'') = Codex \<and>
   \<not> hasActiveProcess switched_bot (js ''c1'') \<and>
   last (map command (children (deliver (Inbound (prompt_in_proj (js ''two''))) switched_bot))) =
     js ''codex exec resume --json --dangerously-bypass-approvals-and-sandbox s1 '' @
     [0x27] @ js ''two'' @ [0x27]"
  by (simp add: switched_bot_def resumable_bot_def running_bot_def run_defs buildCodexCommand_def
      escapeShellString_def)



section \<open>Tool results written to the provider\<close>

text \<open>
  \<open>sendToolResponse\<close>: the response object, its line, and the write to the stdin of the
  channel's process. A write to a stream that was ended delivers nothing.
\<close>

definition toolResponse :: "jsstring \<Rightarrow> json \<Rightarrow> json" where
  "toolResponse toolUseId res =
     JObj [(js ''type'', JStr (js ''user'')),
           (js ''message'',
            JObj [(js ''role'', JStr (js ''user'')),
                  (js ''content'',
                   JArr [JObj [(js ''type'', JStr (js ''tool_result'')),
                               (js ''tool_use_id'', JStr toolUseId),
                               (js ''content'', JStr (JSON_stringify res)),
                               (js ''is_error'', JBool False)]])])]"

definition toolResponseLine :: "jsstring \<Rightarrow> json \<Rightarrow> jsstring" where
  "toolResponseLine toolUseId res = JSON_stringify (toolResponse toolUseId res) @ [0x0A]"

definition stdin_write :: "pid \<Rightarrow> jsstring \<Rightarrow> state \<Rightarrow> state" where
  "stdin_write p line s =
     (case stdin (children s ! p) of
        None \<Rightarrow> s
      | Some pipe \<Rightarrow>
          if ended pipe then s\<lparr>console := console s @ [WriteAfterEnd]\<rparr>
          else s\<lparr>children := (children s)[p := (children s ! p)\<lparr>stdin :=
                   Some (pipe\<lparr>written := written pipe @ [line]\<rparr>)\<rparr>]\<rparr>)"

definition sendToolResponse :: "channel_id \<Rightarrow> jsstring \<Rightarrow> json \<Rightarrow> state \<Rightarrow> state" where
  "sendToolResponse channelId toolUseId res s =
     (case channelProcesses s channelId of
        None \<Rightarrow> s\<lparr>console := console s @ [CannotSendToolResponse]\<rparr>
      | Some channelProcess \<Rightarrow>
          (case process channelProcess of
             None \<Rightarrow> s\<lparr>console := console s @ [CannotSendToolResponse]\<rparr>
           | Some p \<Rightarrow>
               (case stdin (children s ! p) of
                  None \<Rightarrow> s\<lparr>console := console s @ [CannotSendToolResponse]\<rparr>
                | Some pipe \<Rightarrow> stdin_write p (toolResponseLine toolUseId res) s)))"

lemma num_free_toolResponse: "num_free (toolResponse toolUseId res)"
  by (simp add: toolResponse_def)

text \<open>
  C7. For every tool-use id and every decision payload: the line ends with a newline, and
  parsing it gives back the object of the documented shape, with \<open>is_error\<close> false and
  \<open>content\<close> the JSON text of the payload; that text parses back to the payload when the
  payload holds no number (the payloads the manager builds hold strings and booleans).
\<close>

theorem toolResponseLine_roundtrip:
  "last (toolResponseLine toolUseId res) = 0x0A \<and>
   JSON_parse (toolResponseLine toolUseId res) =
     Some (JObj [(js ''type'', JStr (js ''user'')),
                 (js ''message'',
                  JObj [(js ''role'', JStr (js ''user'')),
                        (js ''content'',
                         JArr [JObj [(js ''type'', JStr (js ''tool_result'')),
                                     (js ''tool_use_id'', JStr toolUseId),
                                     (js ''content'', JStr (JSON_stringify res)),
                                     (js ''is_error'', JBool False)]])])]) \<and>
   (num_free res \<longrightarrow> JSON_parse (JSON_stringify res) = Some res)"
proof -
  have "JSON_parse (toolResponseLine toolUseId res) = Some (toolResponse toolUseId res)"
    unfolding toolResponseLine_def
    by (rule JSON_parse_stringify_line) (rule num_free_toolResponse)
  then show ?thesis
    by (simp add: toolResponse_def JSON_parse_stringify) (simp add: toolResponseLine_def)
qed

definition timed_out_plan :: json where
  "timed_out_plan =
     JObj [(js ''rejected'', JBool True),
           (js ''feedback'', JStr (js ''Review timed out - no response from user''))]"

theorem toolResponseLine_roundtrip_witness:
  "num_free timed_out_plan \<and>
   JSON_parse (JSON_stringify timed_out_plan) = Some timed_out_plan \<and>
   JSON_stringify (JObj [(js ''rejected'', JBool True)]) =
     [0x7B, 0x22] @ js ''rejected'' @ [0x22] @ js '':true}'' \<and>
   JSON_parse (toolResponseLine (js ''toolu_1'') timed_out_plan) =
     Some (toolResponse (js ''toolu_1'') timed_out_plan)"
  using toolResponseLine_roundtrip [of "js ''toolu_1''" timed_out_plan]
  by (simp add: timed_out_plan_def toolResponse_def QuoteJSONString_def quote_unit_def
      is_high_surrogate_def is_low_surrogate_def)


section \<open>The parse loop over the lines of a chunk\<close>

subsection \<open>Reading parsed values\<close>

text \<open>
  A property read \<open>v.k\<close> on a parsed value, for the property names the loops read
  (\<open>type\<close>, \<open>message\<close>, \<open>content\<close>, \<open>subtype\<close>, \<open>session_id\<close>, \<open>thread_id\<close>, \<open>item\<close>,
  \<open>text\<close>), none of which a string, an array, a number or a boolean has: on \<open>undefined\<close>
  and \<open>null\<close> the read throws a TypeError; on an object it gives the last member with the
  key, or \<open>undefined\<close>; on anything else \<open>undefined\<close>. \<open>None\<close> stands for \<open>undefined\<close>.
\<close>

datatype js_read = TypeError | Got "json option"

fun get_prop :: "json option \<Rightarrow> jsstring \<Rightarrow> js_read" where
  "get_prop None k = TypeError"
| "get_prop (Some JNull) k = TypeError"
| "get_prop (Some (JObj kvs)) k = Got (map_of (rev kvs) k)"
| "get_prop (Some v) k = Got None"

text \<open>\<open>v?.k\<close>: \<open>undefined\<close> instead of the TypeError.\<close>

fun opt_prop :: "json option \<Rightarrow> jsstring \<Rightarrow> json option" where
  "opt_prop v k = (case get_prop v k of TypeError \<Rightarrow> None | Got x \<Rightarrow> x)"

text \<open>
  Truthiness. A number is carried as its literal; it counts as zero when every digit of
  its integer and fraction part is 0 (a literal so small that it rounds to zero as a double
  is not told apart).
\<close>

definition zero_literal :: "jsstring \<Rightarrow> bool" where
  "zero_literal lexeme \<longleftrightarrow>
     list_all (\<lambda>c. c = 0x30)
       (filter is_digit (takeWhile (\<lambda>c. c \<noteq> ch CHR ''e'' \<and> c \<noteq> ch CHR ''E'') lexeme))"

fun truthy :: "json option \<Rightarrow> bool" where
  "truthy None = False"
| "truthy (Some JNull) = False"
| "truthy (Some (JBool b)) = b"
| "truthy (Some (JNum lexeme)) = (\<not> zero_literal lexeme)"
| "truthy (Some (JStr s)) = (s \<noteq> [])"
| "truthy (Some (JArr vs)) = True"
| "truthy (Some (JObj kvs)) = True"

subsection \<open>The loop of \<open>runClaudeCode\<close>\<close>

text \<open>
  What the loop does with one line: the handlers it calls, in order, with the parsed
  value. The handlers are asynchronous and are not awaited; an exception inside the
  \<open>try\<close> block (from \<open>JSON.parse\<close> or from a property read) is caught and logged with the
  line, and the loop goes on with the next line.
\<close>

datatype claude_call =
    HandleAssistantMessage json
  | HandleToolResultMessage json
  | HandleResultMessage json
  | HandleInitMessage json
  | DbSetSession "json option"
  | ErrorParsingJSON jsstring

definition message_content :: "json \<Rightarrow> js_read" where
  "message_content parsed =
     (case get_prop (Some parsed) (js ''message'') of
        TypeError \<Rightarrow> TypeError
      | Got m \<Rightarrow> get_prop m (js ''content''))"

definition claude_dispatch :: "json \<Rightarrow> claude_call list option" where
  "claude_dispatch parsed =
     (case get_prop (Some parsed) (js ''type'') of
        TypeError \<Rightarrow> None
      | Got t \<Rightarrow>
          if t = Some (JStr (js ''assistant'')) then
            (case message_content parsed of
               TypeError \<Rightarrow> None
             | Got c \<Rightarrow> if truthy c then Some [HandleAssistantMessage parsed] else Some [])
          else if t = Some (JStr (js ''user'')) then
            (case message_content parsed of
               TypeError \<Rightarrow> None
             | Got c \<Rightarrow> if truthy c then Some [HandleToolResultMessage parsed] else Some [])
          else if t = Some (JStr (js ''result'')) then Some [HandleResultMessage parsed]
          else if t = Some (JStr (js ''system'')) then
            Some ((if opt_prop (Some parsed) (js ''subtype'') = Some (JStr (js ''init''))
                   then [HandleInitMessage parsed] else []) @
                  [DbSetSession (opt_prop (Some parsed) (js ''session_id''))])
          else Some [])"

definition claude_line :: "jsstring \<Rightarrow> claude_call list" where
  "claude_line line =
     (if trim line = [] then []
      else
        (case JSON_parse line of
           None \<Rightarrow> [ErrorParsingJSON line]
         | Some parsed \<Rightarrow>
             (case claude_dispatch parsed of
                None \<Rightarrow> [ErrorParsingJSON line]
              | Some calls \<Rightarrow> calls)))"

definition claude_lines :: "jsstring list \<Rightarrow> claude_call list" where
  "claude_lines lines = concat (map claude_line lines)"

definition claude_stdout :: "bytes list \<Rightarrow> claude_call list" where
  "claude_stdout chunks = claude_lines (stdout_lines chunks)"

subsection \<open>The loop of \<open>runCodex\<close>\<close>

datatype codex_call =
    CodexSetSession "json option"
  | HandleCodexInitMessage json
  | HandleCodexCommandStart "json option"
  | HandleCodexMessage "json option"
  | HandleCodexReasoning "json option"
  | HandleCodexCommandComplete "json option"
  | HandleCodexFileChange "json option"
  | HandleCodexTurnCompleted json
  | ErrorParsingCodexJSON jsstring

definition codex_dispatch :: "json \<Rightarrow> codex_call list option" where
  "codex_dispatch parsed =
     (case get_prop (Some parsed) (js ''type'') of
        TypeError \<Rightarrow> None
      | Got t \<Rightarrow>
          (let item = opt_prop (Some parsed) (js ''item'');
               item_type = opt_prop item (js ''type'')
           in if t = Some (JStr (js ''thread.started'')) \<and>
                 truthy (opt_prop (Some parsed) (js ''thread_id'')) then
                Some [CodexSetSession (opt_prop (Some parsed) (js ''thread_id'')),
                      HandleCodexInitMessage parsed]
              else if t = Some (JStr (js ''item.started'')) \<and>
                      item_type = Some (JStr (js ''command_execution'')) then
                Some [HandleCodexCommandStart item]
              else if t = Some (JStr (js ''item.completed'')) then
                (if item_type = Some (JStr (js ''agent_message'')) then
                   Some [HandleCodexMessage (opt_prop item (js ''text''))]
                 else if item_type = Some (JStr (js ''reasoning'')) then
                   Some [HandleCodexReasoning item]
                 else if item_type = Some (JStr (js ''command_execution'')) then
                   Some [HandleCodexCommandComplete item]
                 else if item_type = Some (JStr (js ''file_change'')) then
                   Some [HandleCodexFileChange item]
                 else Some [])
              else if t = Some (JStr (js ''turn.completed'')) then
                Some [HandleCodexTurnCompleted parsed]
              else Some []))"

definition codex_line :: "jsstring \<Rightarrow> codex_call list" where
  "codex_line line =
     (if trim line = [] then []
      else
        (case JSON_parse line of
           None \<Rightarrow> [ErrorParsingCodexJSON line]
         | Some parsed \<Rightarrow>
             (case codex_dispatch parsed of
                None \<Rightarrow> [ErrorParsingCodexJSON line]
              | Some calls \<Rightarrow> calls)))"

definition codex_lines :: "jsstring list \<Rightarrow> codex_call list" where
  "codex_lines lines = concat (map codex_line lines)"

definition codex_stdout :: "bytes list \<Rightarrow> codex_call list" where
  "codex_stdout chunks = codex_lines (stdout_lines chunks)"

subsection \<open>Lines that are not JSON\<close>

text \<open>
  C8, as stated, fails on blank lines: the empty line and a line of spaces are not valid
  JSON, and the loops skip them without parsing and without logging.
\<close>

theorem blank_line_skipped_silently:
  "JSON_parse [] = None \<and> claude_line [] = [] \<and> codex_line [] = [] \<and>
   JSON_parse (js ''  '') = None \<and> claude_line (js ''  '') = [] \<and> codex_line (js ''  '') = []"
  by (simp add: JSON_parse_def skip_ws_def is_json_ws_def claude_line_def codex_line_def trim_def
      is_js_space_def)

text \<open>
  C8, amended. A line that is not blank and is not valid JSON is caught and logged with
  the line, no handler is called for it, and the loop goes on: the calls for the lines
  before it and after it are those the lines give without it, in order.
\<close>

theorem malformed_line_logged:
  "trim line \<noteq> [] \<Longrightarrow> JSON_parse line = None \<Longrightarrow>
   claude_line line = [ErrorParsingJSON line] \<and>
   claude_lines (before @ line # after) =
     claude_lines before @ ErrorParsingJSON line # claude_lines after \<and>
   codex_line line = [ErrorParsingCodexJSON line] \<and>
   codex_lines (before @ line # after) =
     codex_lines before @ ErrorParsingCodexJSON line # codex_lines after"
  by (simp add: claude_line_def claude_lines_def codex_line_def codex_lines_def)

definition result_line :: jsstring where
  "result_line = JSON_stringify (JObj [(js ''type'', JStr (js ''result''))])"

definition turn_completed_line :: jsstring where
  "turn_completed_line = JSON_stringify (JObj [(js ''type'', JStr (js ''turn.completed''))])"

theorem malformed_line_logged_witness:
  "trim (js ''Error: not json'') \<noteq> [] \<and> JSON_parse (js ''Error: not json'') = None \<and>
   claude_lines [js ''Error: not json'', result_line] =
     [ErrorParsingJSON (js ''Error: not json''),
      HandleResultMessage (JObj [(js ''type'', JStr (js ''result''))])] \<and>
   codex_lines [js ''Error: not json'', turn_completed_line] =
     [ErrorParsingCodexJSON (js ''Error: not json''),
      HandleCodexTurnCompleted (JObj [(js ''type'', JStr (js ''turn.completed''))])]"
proof -
  have t: "trim (js ''Error: not json'') \<noteq> []"
    by (simp add: trim_def is_js_space_def)
  have p: "JSON_parse (js ''Error: not json'') = None"
    by (simp add: JSON_parse_def skip_ws_def is_json_ws_def lex_number_def lex_int_def is_digit_def)
  have "trim result_line \<noteq> []"
    by (simp add: result_line_def trim_def is_js_space_def QuoteJSONString_def quote_unit_def
        is_high_surrogate_def is_low_surrogate_def)
  moreover have "JSON_parse result_line = Some (JObj [(js ''type'', JStr (js ''result''))])"
    unfolding result_line_def by (rule JSON_parse_stringify) simp
  ultimately have r:
    "claude_line result_line = [HandleResultMessage (JObj [(js ''type'', JStr (js ''result''))])]"
    by (simp add: claude_line_def claude_dispatch_def)
  have "trim turn_completed_line \<noteq> []"
    by (simp add: turn_completed_line_def trim_def is_js_space_def QuoteJSONString_def
        quote_unit_def is_high_surrogate_def is_low_surrogate_def)
  moreover have "JSON_parse turn_completed_line =
      Some (JObj [(js ''type'', JStr (js ''turn.completed''))])"
    unfolding turn_completed_line_def by (rule JSON_parse_stringify) simp
  ultimately have c: "codex_line turn_completed_line =
      [HandleCodexTurnCompleted (JObj [(js ''type'', JStr (js ''turn.completed''))])]"
    by (simp add: codex_line_def codex_dispatch_def Let_def)
  show ?thesis
    using malformed_line_logged [OF t p, of "[]" "[result_line]"]
      malformed_line_logged [OF t p, of "[]" "[turn_completed_line]"] t p r c
    by (simp add: claude_lines_def codex_lines_def)
qed


section \<open>Result lines the handler rejects\<close>

text \<open>
  The stdout loop hands \<open>handleResultMessage\<close> whatever value the line parses to. A
  message \<open>m\<close> is a reading of a parsed value when each property the handler reads is
  absent in both, or has its declared type in the value and the same content in \<open>m\<close>. The
  turn count is read from a literal of digits, and a cost literal is read by some number.
\<close>

definition decimal_value :: "jsstring \<Rightarrow> nat" where
  "decimal_value digits = fold (\<lambda>c n. 10 * n + (unat c - 48)) digits 0"

fun string_reads :: "json option \<Rightarrow> jsstring option \<Rightarrow> bool" where
  "string_reads None x = (x = None)"
| "string_reads (Some (JStr t)) x = (x = Some t)"
| "string_reads (Some v) x = False"

fun turns_read :: "json option \<Rightarrow> nat option \<Rightarrow> bool" where
  "turns_read None x = (x = None)"
| "turns_read (Some (JNum lexeme)) x =
     (lex_int lexeme = Some (lexeme, []) \<and> x = Some (decimal_value lexeme))"
| "turns_read (Some v) x = False"

fun cost_reads :: "json option \<Rightarrow> js_number option \<Rightarrow> bool" where
  "cost_reads None x = (x = None)"
| "cost_reads (Some (JNum lexeme)) x = (x \<noteq> None)"
| "cost_reads (Some v) x = False"

definition reads_as :: "json \<Rightarrow> result_message \<Rightarrow> bool" where
  "reads_as parsed m \<longleftrightarrow>
     string_reads (opt_prop (Some parsed) (js ''session_id'')) (session_id m) \<and>
     string_reads (opt_prop (Some parsed) (js ''subtype'')) (subtype m) \<and>
     turns_read (opt_prop (Some parsed) (js ''num_turns'')) (num_turns m) \<and>
     cost_reads (opt_prop (Some parsed) (js ''total_cost_usd'')) (total_cost_usd m) \<and>
     string_reads (opt_prop (Some parsed) (js ''result'')) (result m)"

text \<open>
  Two result lines: one with the type alone, and one of a successful run that carries its
  session id and no cost.
\<close>

definition bare_result_json :: json where
  "bare_result_json = JObj [(js ''type'', JStr (js ''result''))]"

definition bare_result :: result_message where
  "bare_result =
     \<lparr>session_id = None, subtype = None, num_turns = None, total_cost_usd = None, result = None\<rparr>"

definition uncosted_result_json :: json where
  "uncosted_result_json =
     JObj [(js ''type'', JStr (js ''result'')), (js ''subtype'', JStr (js ''success'')),
           (js ''session_id'', JStr (js ''s1''))]"

definition uncosted_result :: result_message where
  "uncosted_result =
     \<lparr>session_id = Some (js ''s1''), subtype = Some (js ''success''), num_turns = None,
      total_cost_usd = None, result = None\<rparr>"

lemma bare_result_line:
  "claude_line (JSON_stringify bare_result_json) = [HandleResultMessage bare_result_json]"
proof -
  have "trim (JSON_stringify bare_result_json) \<noteq> []"
    by (simp add: bare_result_json_def trim_def is_js_space_def QuoteJSONString_def quote_unit_def
        is_high_surrogate_def is_low_surrogate_def)
  moreover have "JSON_parse (JSON_stringify bare_result_json) = Some bare_result_json"
    by (rule JSON_parse_stringify) (simp add: bare_result_json_def)
  ultimately show ?thesis
    by (simp add: claude_line_def claude_dispatch_def bare_result_json_def)
qed

lemma uncosted_result_line:
  "claude_line (JSON_stringify uncosted_result_json) = [HandleResultMessage uncosted_result_json]"
proof -
  have "trim (JSON_stringify uncosted_result_json) \<noteq> []"
    by (simp add: uncosted_result_json_def trim_def is_js_space_def QuoteJSONString_def
        quote_unit_def is_high_surrogate_def is_low_surrogate_def)
  moreover have "JSON_parse (JSON_stringify uncosted_result_json) = Some uncosted_result_json"
    by (rule JSON_parse_stringify) (simp add: uncosted_result_json_def)
  ultimately show ?thesis
    by (simp add: claude_line_def claude_dispatch_def uncosted_result_json_def)
qed

lemma result_readings:
  "reads_as bare_result_json bare_result \<and> reads_as uncosted_result_json uncosted_result"
  by (simp add: reads_as_def bare_result_json_def bare_result_def uncosted_result_json_def
      uncosted_result_def)

lemma rejected_on_running_bot:
  "hasActiveProcess running_bot (js ''c1'') \<and>
   hasActiveProcess (deliver (ResultLine 0 bare_result) running_bot) (js ''c1'') \<and>
   console (deliver (ResultLine 0 bare_result) running_bot) = [HandlerRejected] \<and>
   map signals (children (deliver (ResultLine 0 bare_result) running_bot)) = [[]] \<and>
   map timeout_pending (children (deliver (ResultLine 0 bare_result) running_bot)) = [True] \<and>
   hasActiveProcess (deliver (ResultLine 0 uncosted_result) running_bot) (js ''c1'') \<and>
   console (deliver (ResultLine 0 uncosted_result) running_bot) = [HandlerRejected] \<and>
   map signals (children (deliver (ResultLine 0 uncosted_result) running_bot)) = [[]] \<and>
   map timeout_pending (children (deliver (ResultLine 0 uncosted_result) running_bot)) = [True] \<and>
   getSessionId (deliver (ResultLine 0 uncosted_result) running_bot) (js ''c1'') = Some (js ''s1'') \<and>
   \<not> hasActiveProcess (deliver (ResultLine 0 done_message) running_bot) (js ''c1'') \<and>
   map signals (children (deliver (ResultLine 0 done_message) running_bot)) = [[SIGTERM]]"
  by (simp add: running_bot_def run_defs bare_result_def uncosted_result_def)

text \<open>
  C3. The claim: every exit path of a run, the handling of the result line among them,
  removes the channel's entry. The close and the error handler do, whatever the state
  (\<open>claude_on_close_forgets\<close>, \<open>claude_on_error_forgets\<close>). The result branch does when the
  handler's promise resolves (\<open>claude_on_result_forgets\<close>). On a result line without a
  session id, and on one without a cost, the promise rejects: the rejection is logged, and
  the entry stays, the process is not signalled and its timer stays armed. The same
  channel after the result line of a complete message is idle.
\<close>

theorem rejected_result_keeps_process:
  "claude_line (JSON_stringify bare_result_json) = [HandleResultMessage bare_result_json] \<and>
   reads_as bare_result_json bare_result \<and>
   claude_line (JSON_stringify uncosted_result_json) = [HandleResultMessage uncosted_result_json] \<and>
   reads_as uncosted_result_json uncosted_result \<and>
   hasActiveProcess running_bot (js ''c1'') \<and>
   hasActiveProcess (deliver (ResultLine 0 bare_result) running_bot) (js ''c1'') \<and>
   console (deliver (ResultLine 0 bare_result) running_bot) = [HandlerRejected] \<and>
   map signals (children (deliver (ResultLine 0 bare_result) running_bot)) = [[]] \<and>
   map timeout_pending (children (deliver (ResultLine 0 bare_result) running_bot)) = [True] \<and>
   hasActiveProcess (deliver (ResultLine 0 uncosted_result) running_bot) (js ''c1'') \<and>
   console (deliver (ResultLine 0 uncosted_result) running_bot) = [HandlerRejected] \<and>
   map signals (children (deliver (ResultLine 0 uncosted_result) running_bot)) = [[]] \<and>
   map timeout_pending (children (deliver (ResultLine 0 uncosted_result) running_bot)) = [True] \<and>
   getSessionId (deliver (ResultLine 0 uncosted_result) running_bot) (js ''c1'') = Some (js ''s1'') \<and>
   \<not> hasActiveProcess (deliver (ResultLine 0 done_message) running_bot) (js ''c1'') \<and>
   map signals (children (deliver (ResultLine 0 done_message) running_bot)) = [[SIGTERM]]"
  using bare_result_line uncosted_result_line result_readings rejected_on_running_bot
  by simp


section \<open>Tool calls and their results\<close>

text \<open>
  The handlers take a message at its declared type; the source casts the parsed value to
  that type without a check.
\<close>

fun replace_first :: "jsstring \<Rightarrow> jsstring \<Rightarrow> jsstring \<Rightarrow> jsstring" where
  "replace_first pat rep [] = (if pat = [] then rep else [])"
| "replace_first pat rep (c # cs) =
     (if take (length pat) (c # cs) = pat then rep @ drop (length pat) (c # cs)
      else c # replace_first pat rep cs)"

fun string_includes :: "jsstring \<Rightarrow> jsstring \<Rightarrow> bool" where
  "string_includes [] sub = (sub = [])"
| "string_includes (c # cs) sub = (take (length sub) (c # cs) = sub \<or> string_includes cs sub)"

text \<open>\<open>replaceAll\<close> with a pattern that is not empty (the only use has one ending in a slash).\<close>

function replaceAll :: "jsstring \<Rightarrow> jsstring \<Rightarrow> jsstring \<Rightarrow> jsstring" where
  "replaceAll pat rep [] = []"
| "replaceAll pat rep (c # cs) =
     (if pat \<noteq> [] \<and> take (length pat) (c # cs) = pat
      then rep @ replaceAll pat rep (drop (length pat) (c # cs))
      else c # replaceAll pat rep cs)"
  by pat_completeness auto
termination
  by (relation "measure (\<lambda>(pat, rep, s). length s)") (auto simp: Suc_le_eq)

definition ellipsis :: "nat \<Rightarrow> jsstring \<Rightarrow> jsstring" where
  "ellipsis n s = (if n < length s then take n s @ js ''...'' else s)"

definition description_embed :: "jsstring \<Rightarrow> nat \<Rightarrow> embed" where
  "description_embed d c =
     \<lparr>title = None, description = Some d, color = Some c, footer = None, embed_fields = []\<rparr>"

subsection \<open>Claude: \<open>handleToolResultMessage\<close>\<close>

record tool_result =
  tool_use_id :: jsstring
  result_content :: "jsstring option"
  is_error :: bool

record tool_use =
  tool_id :: jsstring
  tool_name :: jsstring
  tool_input :: json

datatype content_block = TextBlock jsstring | ToolUseBlock tool_use | ToolResultBlock tool_result

fun tool_results :: "content_block list \<Rightarrow> tool_result list" where
  "tool_results [] = []"
| "tool_results (ToolResultBlock r # bs) = r # tool_results bs"
| "tool_results (b # bs) = tool_results bs"

text \<open>
  One turn of the loop over the tool results. \<open>result_content\<close> is \<open>None\<close> when the
  content is not a string, and then \<open>split\<close> is not a function; a message without an
  embed or without a description makes the reads throw as well; the \<open>catch\<close> logs.
\<close>

definition update_tool_result :: "(jsstring \<rightharpoonup> tool_call) \<Rightarrow> tool_result \<Rightarrow> state \<Rightarrow> state" where
  "update_tool_result toolCalls r s =
     (case toolCalls (tool_use_id r) of
        None \<Rightarrow> s
      | Some toolCall \<Rightarrow>
          (case result_content r of
             None \<Rightarrow> s\<lparr>console := console s @ [ErrorUpdatingToolResult]\<rparr>
           | Some text \<Rightarrow>
               (let firstLine = trim (hd (split_nl text));
                    resultText = ellipsis 100 firstLine
                in case embeds (chat s ! message toolCall) of
                     [] \<Rightarrow> s\<lparr>console := console s @ [ErrorUpdatingToolResult]\<rparr>
                   | currentEmbed # others \<Rightarrow>
                       (case description currentEmbed of
                          None \<Rightarrow> s\<lparr>console := console s @ [ErrorUpdatingToolResult]\<rparr>
                        | Some d \<Rightarrow>
                            (let originalDescription = replace_first [0x23F3] [0x2705] d;
                                 updatedEmbed =
                                   (if is_error r then
                                      description_embed
                                        (0x274C # 0x20 # drop 2 originalDescription @
                                         0x0A # 0x2A # resultText @ [0x2A]) 0xFF0000
                                    else
                                      description_embed
                                        (originalDescription @ 0x0A # 0x2A # resultText @ [0x2A])
                                        0x00FF00)
                             in message_edit (message toolCall) [updatedEmbed] s)))))"

definition handleToolResultMessage :: "channel_id \<Rightarrow> content_block list option \<Rightarrow> state \<Rightarrow> state" where
  "handleToolResultMessage channelId blocks s =
     (let toolResults = (case blocks of None \<Rightarrow> [] | Some bs \<Rightarrow> tool_results bs)
      in if toolResults = [] then s
         else
           (let toolCalls = (case channelToolCalls s channelId of None \<Rightarrow> Map.empty | Some t \<Rightarrow> t)
            in fold (update_tool_result toolCalls) toolResults s))"

subsection \<open>Codex: \<open>handleCodexCommandComplete\<close>\<close>

record codex_item =
  item_id :: jsstring
  item_command :: "jsstring option"
  aggregated_output :: "jsstring option"
  exit_code :: "int option"
  item_status :: "jsstring option"

definition formatCodexCommand :: "state \<Rightarrow> jsstring \<Rightarrow> channel_id \<Rightarrow> jsstring" where
  "formatCodexCommand s cmd channelId =
     (let basePath =
            (case channelNames s channelId of
               None \<Rightarrow> []
             | Some channelName \<Rightarrow> if channelName = [] then [] else baseFolder s @ channelName)
      in if basePath = [] then cmd
         else if string_includes cmd basePath then replaceAll (basePath @ js ''/'') (js ''./'') cmd
         else cmd)"

definition command_text :: "state \<Rightarrow> codex_item \<Rightarrow> channel_id \<Rightarrow> jsstring" where
  "command_text s item channelId =
     ellipsis 500
       (formatCodexCommand s (case item_command item of None \<Rightarrow> [] | Some c \<Rightarrow> c) channelId)"

definition codex_failed :: "codex_item \<Rightarrow> bool" where
  "codex_failed item \<longleftrightarrow>
     item_status item = Some (js ''failed'') \<or>
     (case exit_code item of None \<Rightarrow> False | Some n \<Rightarrow> n \<noteq> 0)"

definition codex_result_suffix :: "codex_item \<Rightarrow> jsstring" where
  "codex_result_suffix item =
     (let output = trim (case aggregated_output item of None \<Rightarrow> [] | Some out \<Rightarrow> out);
          resultText = ellipsis 120 (hd (split_nl output))
      in if resultText = [] then [] else 0x0A # 0x2A # resultText @ [0x2A])"

definition handleCodexCommandComplete :: "channel_id \<Rightarrow> codex_item \<Rightarrow> state \<Rightarrow> state" where
  "handleCodexCommandComplete channelId item s =
     (case status_channel s channelId of
        None \<Rightarrow> s
      | Some chan \<Rightarrow>
          (let toolCalls = (case channelToolCalls s channelId of None \<Rightarrow> Map.empty | Some t \<Rightarrow> t);
               status_icon = (if codex_failed item then 0x274C else 0x2705);
               status_color = (if codex_failed item then 0xFF0000 else 0x00FF00)
           in case toolCalls (item_id item) of
                Some toolCall \<Rightarrow>
                  (case embeds (chat s ! message toolCall) of
                     [] \<Rightarrow> s\<lparr>console := console s @ [HandlerRejected]\<rparr>
                   | currentEmbed # others \<Rightarrow>
                       (case description currentEmbed of
                          None \<Rightarrow> s\<lparr>console := console s @ [HandlerRejected]\<rparr>
                        | Some d \<Rightarrow>
                            message_edit (message toolCall)
                              [description_embed
                                 (replace_first [0x23F3] [status_icon] d @ codex_result_suffix item)
                                 status_color] s))
              | None \<Rightarrow>
                  channel_send chan None
                    [description_embed
                       (status_icon # 0x20 # 0xD83D # 0xDD27 # js '' **Command**'' @ 0x0A #
                        js ''```bash'' @ 0x0A # command_text s item channelId @ 0x0A # js ''```'' @
                        codex_result_suffix item)
                       status_color] [] s))"


subsection \<open>Results with and without a recorded call\<close>

lemma fold_update_unrecorded:
  "\<forall>r \<in> set rs. toolCalls (tool_use_id r) = None \<Longrightarrow> fold (update_tool_result toolCalls) rs s = s"
  by (induction rs) (simp_all add: update_tool_result_def)

lemma handleToolResultMessage_unrecorded:
  assumes "\<forall>r \<in> set (tool_results bs). \<forall>t. channelToolCalls s channelId = Some t \<longrightarrow>
             t (tool_use_id r) = None"
  shows "handleToolResultMessage channelId (Some bs) s = s"
proof (cases "channelToolCalls s channelId")
  case None
  have "fold (update_tool_result Map.empty) (tool_results bs) s = s"
    by (rule fold_update_unrecorded) simp
  then show ?thesis using None by (simp add: handleToolResultMessage_def Let_def)
next
  case (Some t)
  have "fold (update_tool_result t) (tool_results bs) s = s"
    by (rule fold_update_unrecorded) (use assms Some in simp)
  then show ?thesis using Some by (simp add: handleToolResultMessage_def Let_def)
qed

lemma handleToolResultMessage_recorded:
  assumes "channelToolCalls s channelId = Some t" and "t (tool_use_id r) = Some toolCall"
    and "result_content r = Some out"
    and "embeds (chat s ! message toolCall) = currentEmbed # others"
    and "description currentEmbed = Some d"
  shows "handleToolResultMessage channelId (Some [ToolResultBlock r]) s =
           message_edit (message toolCall)
             [if is_error r then
                description_embed
                  (0x274C # 0x20 # drop 2 (replace_first [0x23F3] [0x2705] d) @
                   0x0A # 0x2A # ellipsis 100 (trim (hd (split_nl out))) @ [0x2A]) 0xFF0000
              else
                description_embed
                  (replace_first [0x23F3] [0x2705] d @
                   0x0A # 0x2A # ellipsis 100 (trim (hd (split_nl out))) @ [0x2A]) 0x00FF00] s"
  using assms by (simp add: handleToolResultMessage_def update_tool_result_def Let_def)

lemma handleCodexCommandComplete_unrecorded:
  assumes "status_channel s channelId = Some chan"
    and "\<forall>t. channelToolCalls s channelId = Some t \<longrightarrow> t (item_id item) = None"
  shows "chat (handleCodexCommandComplete channelId item s) =
           chat s @
             [\<lparr>msg_channel = chan, content = None,
               embeds =
                 [description_embed
                    ((if codex_failed item then 0x274C else 0x2705) # 0x20 # 0xD83D # 0xDD27 #
                     js '' **Command**'' @ 0x0A # js ''```bash'' @ 0x0A #
                     command_text s item channelId @ 0x0A # js ''```'' @ codex_result_suffix item)
                    (if codex_failed item then 0xFF0000 else 0x00FF00)],
               components = []\<rparr>]"
  using assms
  by (cases "channelToolCalls s channelId")
     (simp_all add: handleCodexCommandComplete_def channel_send_def Let_def)

lemma running_bot_shown:
  "channelMessages running_bot (js ''c1'') = Some 0 \<and> length (chat running_bot) = 1 \<and>
   msg_channel (chat running_bot ! 0) = js ''c1'' \<and> console running_bot = [] \<and>
   channelToolCalls running_bot (js ''c1'') = Some Map.empty \<and>
   channelNames running_bot (js ''c1'') = Some (js ''proj'') \<and>
   baseFolder running_bot = js ''/base''"
  by (simp add: running_bot_def run_defs)

text \<open>
  C5. The claim: a tool result whose id was never recorded is rendered as a message of its
  own. The Codex handler does so (\<open>handleCodexCommandComplete_unrecorded\<close>). The Claude
  handler skips the result: on a running channel whose table of tool calls is empty, the
  result of \<open>toolu_9\<close> leaves the chat as it was, with the status message alone.
\<close>

theorem unrecorded_claude_result_not_rendered:
  "status_channel running_bot (js ''c1'') = Some (js ''c1'') \<and>
   chat (handleToolResultMessage (js ''c1'')
           (Some [ToolResultBlock \<lparr>tool_use_id = js ''toolu_9'', result_content = Some (js ''done''),
                                    is_error = False\<rparr>]) running_bot) =
     chat running_bot \<and>
   length (chat running_bot) = 1"
proof -
  have "handleToolResultMessage (js ''c1'')
          (Some [ToolResultBlock \<lparr>tool_use_id = js ''toolu_9'', result_content = Some (js ''done''),
                                   is_error = False\<rparr>]) running_bot = running_bot"
    by (rule handleToolResultMessage_unrecorded) (simp add: running_bot_shown [simplified])
  then show ?thesis
    by (simp add: status_channel_def running_bot_shown [simplified])
qed


section \<open>Questions and plan reviews\<close>

text \<open>
  \<open>handleAskUserQuestion\<close> and \<open>handleExitPlanMode\<close> send a prompt with buttons, wait for
  a click for a bounded time, and hand an answer to \<open>sendToolResponse\<close>. While a handler
  waits the manager goes on handling events; \<open>during\<close> is the list of the events handled
  before the handler resumes. The outcome of the wait is a parameter.
\<close>


subsection \<open>\<open>handleExitPlanMode\<close>\<close>




subsection \<open>\<open>handleAskUserQuestion\<close>\<close>















subsection \<open>What reaches the provider\<close>

text \<open>
  The pipe \<open>sendToolResponse\<close> finds for a channel, and the lines each process was sent on
  its stdin.
\<close>

definition provider_stdin :: "state \<Rightarrow> channel_id \<Rightarrow> (pid \<times> stdin_pipe) option" where
  "provider_stdin s channelId =
     (case channelProcesses s channelId of
        None \<Rightarrow> None
      | Some channelProcess \<Rightarrow>
          (case process channelProcess of
             None \<Rightarrow> None
           | Some p \<Rightarrow> map_option (Pair p) (stdin (children s ! p))))"

definition received :: "state \<Rightarrow> jsstring list list" where
  "received s = map (\<lambda>c. case stdin c of None \<Rightarrow> [] | Some pipe \<Rightarrow> written pipe) (children s)"





lemma received_console [simp]: "received (s\<lparr>console := x\<rparr>) = received s"
  by (simp add: received_def)

lemma received_chat [simp]: "received (s\<lparr>chat := x\<rparr>) = received s"
  by (simp add: received_def)


lemma provider_stdin_edit [simp]:
  "provider_stdin (message_edit_clear m es s) channelId = provider_stdin s channelId"
  by (simp add: provider_stdin_def message_edit_clear_def split: option.splits)

lemma received_edit [simp]: "received (message_edit_clear m es s) = received s"
  by (simp add: message_edit_clear_def)

lemma console_edit [simp]: "console (message_edit_clear m es s) = console s"
  by (simp add: message_edit_clear_def)

lemma provider_stdin_pipe:
  "provider_stdin s channelId = Some (p, pipe) \<Longrightarrow> stdin (children s ! p) = Some pipe"
  by (auto simp add: provider_stdin_def split: option.splits)




lemma chat_sendToolResponse [simp]:
  "chat (sendToolResponse channelId toolUseId res s) = chat s"
  by (simp add: sendToolResponse_def stdin_write_def split: option.splits)

text \<open>A process the manager starts has no stdin that is open.\<close>

lemma children_track_process [simp]: "children (track_process c p s) = children s"
  by (simp add: track_process_def split: option.splits)







subsection \<open>A wait that ends without a click\<close>








end
